theory Spec2Isabelle
  imports Complex_Main
begin

unbundle bit_operations_syntax

section \<open>The DFU driver of solo/dfu.py\<close>

subsection \<open>Values, exceptions and the USB backend\<close>

text \<open>
  Python's integers are unbounded: \<open>int\<close>. A byte string or a list of byte values is
  a list of integers, each in \<open>0..255\<close> when it comes from the device.
\<close>

type_synonym bytes = "int list"

text \<open>
  Modelled from the spec: exceptions.NonUniqueDeviceError (exceptions.py is not among
  the sources) is a class of its own, not a \<open>RuntimeError\<close>: the spec has it fatal
  and never retried. The other constructors are the exceptions dfu.py raises or lets
  through; \<open>USBError\<close> carries its errno and is the only one that is an \<open>OSError\<close>.
\<close>

datatype exn =
    USBError "int option"
  | RuntimeError string
  | AssertionError
  | NonUniqueDeviceError
  | Exception string
  | IndexError
  | ZeroDivisionError
  | StructError
  | TypeError

text \<open>\<open>errno.EPIPE\<close>, with its value on Linux.\<close>

definition EPIPE :: int where
  "EPIPE = 32"

text \<open>
  Modelled from the spec: the constants of class DFU (commands.py is not among the
  sources). The spec's table of control transfers gives the two directions
  (\<open>DFU.type\<close>) and the four requests dfu.py uses (\<open>DFU.bmReq\<close>); the states
  (\<open>DFU.state\<close>) are numbered in the order the spec lists them.
\<close>

datatype direction = SEND | RECEIVE

datatype bmReq = DNLOAD | UPLOAD | GETSTATUS | CLRSTATUS

definition APP_IDLE :: int where "APP_IDLE = 0"
definition APP_DETACH :: int where "APP_DETACH = 1"
definition IDLE :: int where "IDLE = 2"
definition DOWNLOAD_SYNC :: int where "DOWNLOAD_SYNC = 3"
definition DOWNLOAD_BUSY :: int where "DOWNLOAD_BUSY = 4"
definition DOWNLOAD_IDLE :: int where "DOWNLOAD_IDLE = 5"
definition MANIFEST_SYNC :: int where "MANIFEST_SYNC = 6"
definition MANIFEST :: int where "MANIFEST = 7"
definition MANIFEST_WAIT_RESET :: int where "MANIFEST_WAIT_RESET = 8"
definition UPLOAD_IDLE :: int where "UPLOAD_IDLE = 9"
definition ERROR :: int where "ERROR = 10"

record dfu_status =
  st_status :: int
  st_timeout :: int
  st_state :: int
  st_istring :: int

text \<open>
  Modelled from the spec: \<open>DFU.status\<close> (commands.py), which decodes the 6 bytes
  \<open>{status, pollTimeout[3], state, stringIdx}\<close> of a status reply, the poll timeout
  little-endian; indexing a shorter reply raises \<open>IndexError\<close>.
\<close>

definition DFU_status :: "bytes \<Rightarrow> exn + dfu_status" where
  "DFU_status s =
     (if length s < 6 then Inl IndexError
      else Inr \<lparr>st_status = s ! 0,
                st_timeout = s ! 1 + push_bit 8 (s ! 2) + push_bit 16 (s ! 3),
                st_state = s ! 4,
                st_istring = s ! 5\<rparr>)"

text \<open>
  Modelled from the spec: \<open>STM32L4.options\<close> (commands.py), the two boot bits of the
  option word. The spec treats their layout as configuration, so they are parameters.
\<close>

record STM32L4_options =
  nBOOT0 :: int
  nSWBOOT0 :: int

text \<open>What pyusb shows of a device: handles, interface descriptors, configurations.\<close>

type_synonym device = nat

record interface =
  bInterfaceNumber :: nat
  bAlternateSetting :: int

record usb_config =
  interfaces :: "interface list"
  getitem :: "nat \<Rightarrow> int \<Rightarrow> exn + interface"

datatype find_result = FoundNone | FoundOne device | FoundMany "device list"

datatype data_or_wLength = DNone | DData bytes | DLen int

text \<open>
  The calls that leave the program, in the order they are made. A sleep is recorded
  with its argument, in seconds.
\<close>

datatype event =
    CtrlTransfer device direction bmReq int nat data_or_wLength
  | Sleep rat
  | Print string
  | CoreFind
  | SerialNumber device
  | GetString device string
  | SetConfiguration device
  | SetInterfaceAltsetting device nat int

text \<open>
  The USB backend and the clock are external: a world \<open>'w\<close> and the functions that
  answer each call from it. \<open>ctrl_in\<close> is \<open>ctrl_transfer\<close> for a device-to-host
  request (it returns the bytes read), \<open>ctrl_out\<close> for a host-to-device request (it
  returns the number of bytes written). \<open>serial_number\<close> is the attribute
  \<open>d.serial_number\<close>, which reads a string descriptor and gives a string;
  \<open>get_string\<close> is \<open>usb.util.get_string(d, index)\<close> with the index it is given.
\<close>

record 'w usb =
  core_find :: "'w \<Rightarrow> (exn + find_result) \<times> 'w"
  serial_number :: "device \<Rightarrow> 'w \<Rightarrow> (exn + string) \<times> 'w"
  get_string :: "device \<Rightarrow> string \<Rightarrow> 'w \<Rightarrow> (exn + string) \<times> 'w"
  set_configuration :: "device \<Rightarrow> 'w \<Rightarrow> (exn + unit) \<times> 'w"
  configurations :: "device \<Rightarrow> usb_config list"
  set_interface_altsetting :: "device \<Rightarrow> nat \<Rightarrow> int \<Rightarrow> 'w \<Rightarrow> (exn + unit) \<times> 'w"
  ctrl_in :: "device \<Rightarrow> bmReq \<Rightarrow> int \<Rightarrow> nat \<Rightarrow> int \<Rightarrow> 'w \<Rightarrow> (exn + bytes) \<times> 'w"
  ctrl_out :: "device \<Rightarrow> bmReq \<Rightarrow> int \<Rightarrow> nat \<Rightarrow> bytes option \<Rightarrow> 'w \<Rightarrow> (exn + int) \<times> 'w"
  time_sleep :: "rat \<Rightarrow> 'w \<Rightarrow> 'w"

record 'w st =
  world :: 'w
  trace :: "event list"

type_synonym ('w, 'a) io = "'w st \<Rightarrow> (exn + 'a) \<times> 'w st"

definition io_return :: "'a \<Rightarrow> ('w, 'a) io" where
  "io_return x \<sigma> = (Inr x, \<sigma>)"

definition io_raise :: "exn \<Rightarrow> ('w, 'a) io" where
  "io_raise e \<sigma> = (Inl e, \<sigma>)"

definition io_bind :: "('w, 'a) io \<Rightarrow> ('a \<Rightarrow> ('w, 'b) io) \<Rightarrow> ('w, 'b) io" where
  "io_bind m f \<sigma> = (case m \<sigma> of (Inl e, \<sigma>') \<Rightarrow> (Inl e, \<sigma>') | (Inr x, \<sigma>') \<Rightarrow> f x \<sigma>')"

definition extern :: "event \<Rightarrow> ('w \<Rightarrow> (exn + 'a) \<times> 'w) \<Rightarrow> ('w, 'a) io" where
  "extern ev f \<sigma> =
     (case f (world \<sigma>) of (r, w') \<Rightarrow> (r, \<lparr>world = w', trace = trace \<sigma> @ [ev]\<rparr>))"

definition sleep :: "'w usb \<Rightarrow> rat \<Rightarrow> ('w, unit) io" where
  "sleep E t = extern (Sleep t) (\<lambda>w. (Inr (), time_sleep E t w))"

definition print :: "string \<Rightarrow> ('w, unit) io" where
  "print s = extern (Print s) (\<lambda>w. (Inr (), w))"

text \<open>
  A computation that may not return (it polls the device without a bound) gives
  \<open>None\<close> when it does not.
\<close>

type_synonym ('w, 'a) pio = "'w st \<Rightarrow> ((exn + 'a) \<times> 'w st) option"

definition lift :: "('w, 'a) io \<Rightarrow> ('w, 'a) pio" where
  "lift m \<sigma> = Some (m \<sigma>)"

definition pio_bind :: "('w, 'a) pio \<Rightarrow> ('a \<Rightarrow> ('w, 'b) pio) \<Rightarrow> ('w, 'b) pio" where
  "pio_bind m f \<sigma> =
     (case m \<sigma> of
        None \<Rightarrow> None
      | Some (Inl e, \<sigma>') \<Rightarrow> Some (Inl e, \<sigma>')
      | Some (Inr x, \<sigma>') \<Rightarrow> f x \<sigma>')"

subsection \<open>class DFUDevice\<close>

record DFUDevice =
  dev :: device
  intNum :: nat
  intf :: interface

definition addr2list :: "int \<Rightarrow> bytes" where
  "addr2list a =
     [a AND 0xFF, (drop_bit 8 a) AND 0xFF, (drop_bit 16 a) AND 0xFF, (drop_bit 24 a) AND 0xFF]"

text \<open>\<open>//\<close> is floor division, as \<open>div\<close> on \<open>int\<close> is; by zero it raises.\<close>

definition addr2block :: "int \<Rightarrow> int \<Rightarrow> exn + int" where
  "addr2block addr sz =
     (if sz = 0 then Inl ZeroDivisionError
      else Inr ((addr - 0x08000000) div sz + 2))"

definition block2addr :: "int \<Rightarrow> int \<Rightarrow> int" where
  "block2addr addr sz = (addr - 2) * sz + 0x08000000"

text \<open>The two shapes of \<open>self.dev.ctrl_transfer\<close>, each recorded in the trace.\<close>

definition transfer_in :: "'w usb \<Rightarrow> DFUDevice \<Rightarrow> bmReq \<Rightarrow> int \<Rightarrow> int \<Rightarrow> ('w, bytes) io" where
  "transfer_in E self rq wValue n =
     extern (CtrlTransfer (dev self) RECEIVE rq wValue (intNum self) (DLen n))
       (ctrl_in E (dev self) rq wValue (intNum self) n)"

definition transfer_out ::
  "'w usb \<Rightarrow> DFUDevice \<Rightarrow> bmReq \<Rightarrow> int \<Rightarrow> bytes option \<Rightarrow> ('w, int) io" where
  "transfer_out E self rq wValue d =
     extern (CtrlTransfer (dev self) SEND rq wValue (intNum self)
               (case d of None \<Rightarrow> DNone | Some b \<Rightarrow> DData b))
       (ctrl_out E (dev self) rq wValue (intNum self) d)"

text \<open>
  \<open>get_status\<close>: the \<open>while True\<close> loop with its counter \<open>tries\<close>; it ends because
  \<open>tries\<close> falls at every retry.
\<close>

fun get_status_loop :: "'w usb \<Rightarrow> DFUDevice \<Rightarrow> nat \<Rightarrow> ('w, bytes) io" where
  "get_status_loop E self tries \<sigma> =
     (case transfer_in E self GETSTATUS 0 6 \<sigma> of
        (Inr s, \<sigma>1) \<Rightarrow> (Inr s, \<sigma>1)
      | (Inl (USBError e), \<sigma>1) \<Rightarrow>
          (if e = Some EPIPE then
             (case tries of
                Suc n \<Rightarrow> get_status_loop E self n (snd (sleep E (1 / 100) \<sigma>1))
              | 0 \<Rightarrow> (Inl (RuntimeError ''Failed to get status from DFU.''), \<sigma>1))
           else (Inl (USBError e), \<sigma>1))
      | (Inl x, \<sigma>1) \<Rightarrow> (Inl x, \<sigma>1))"

declare get_status_loop.simps [simp del]

definition get_status :: "'w usb \<Rightarrow> DFUDevice \<Rightarrow> ('w, dfu_status) io" where
  "get_status E self =
     io_bind (get_status_loop E self 3) (\<lambda>s \<sigma>. (DFU_status s, \<sigma>))"

definition state :: "'w usb \<Rightarrow> DFUDevice \<Rightarrow> ('w, int) io" where
  "state E self = io_bind (get_status E self) (\<lambda>s. io_return (st_state s))"

definition clear_status :: "'w usb \<Rightarrow> DFUDevice \<Rightarrow> ('w, int) io" where
  "clear_status E self = transfer_out E self CLRSTATUS 0 None"

definition upload :: "'w usb \<Rightarrow> DFUDevice \<Rightarrow> int \<Rightarrow> int \<Rightarrow> ('w, bytes) io" where
  "upload E self block sz = transfer_in E self UPLOAD block sz"

definition dnload :: "'w usb \<Rightarrow> DFUDevice \<Rightarrow> int \<Rightarrow> bytes \<Rightarrow> ('w, int) io" where
  "dnload E self block data = transfer_out E self DNLOAD block (Some data)"

definition set_addr :: "'w usb \<Rightarrow> DFUDevice \<Rightarrow> int \<Rightarrow> ('w, int) io" where
  "set_addr E self addr = dnload E self 0 ([0x21] @ addr2list addr)"

definition erase :: "'w usb \<Rightarrow> DFUDevice \<Rightarrow> int \<Rightarrow> ('w, int) io" where
  "erase E self a =
     dnload E self 0
       [0x41, a AND 0xFF, (drop_bit 8 a) AND 0xFF, (drop_bit 16 a) AND 0xFF,
        (drop_bit 24 a) AND 0xFF]"

text \<open>
  \<open>block_on_state\<close>: the first status query, then the \<open>while\<close> loop, which has no
  bound: \<open>block_loop\<close> is the loop entered with the last status \<open>s\<close>.
\<close>

partial_function (option) block_loop ::
  "'w usb \<Rightarrow> DFUDevice \<Rightarrow> int \<Rightarrow> dfu_status \<Rightarrow> 'w st \<Rightarrow> ((exn + unit) \<times> 'w st) option" where
  "block_loop E self target s \<sigma> =
     (if st_state s = target then
        (case get_status E self (snd (sleep E (of_int (st_timeout s) / 1000) \<sigma>)) of
           (Inl e, \<sigma>') \<Rightarrow> Some (Inl e, \<sigma>')
         | (Inr s', \<sigma>') \<Rightarrow> block_loop E self target s' \<sigma>')
      else Some (Inr (), \<sigma>))"

declare block_loop.simps [code]

definition block_on_state :: "'w usb \<Rightarrow> DFUDevice \<Rightarrow> int \<Rightarrow> ('w, unit) pio" where
  "block_on_state E self target \<sigma> =
     (case get_status E self \<sigma> of
        (Inl e, \<sigma>') \<Rightarrow> Some (Inl e, \<sigma>')
      | (Inr s, \<sigma>') \<Rightarrow> block_loop E self target s \<sigma>')"

text \<open>\<open>assert DFU.state.DOWNLOAD_IDLE == self.state()\<close>\<close>

definition assert_download_idle :: "'w usb \<Rightarrow> DFUDevice \<Rightarrow> ('w, unit) io" where
  "assert_download_idle E self =
     io_bind (state E self)
       (\<lambda>s. if DOWNLOAD_IDLE = s then io_return () else io_raise AssertionError)"

definition mass_erase :: "'w usb \<Rightarrow> DFUDevice \<Rightarrow> ('w, unit) pio" where
  "mass_erase E self =
     pio_bind (lift (dnload E self 0 [0x41])) (\<lambda>_.
     pio_bind (block_on_state E self DOWNLOAD_BUSY) (\<lambda>_.
     lift (assert_download_idle E self)))"

text \<open>
  The four lines that \<open>write_page\<close>, \<open>read_mem\<close> and \<open>detach\<close> each repeat, with
  their own tuple of states and their own message:
  \<^verbatim>\<open>if self.state() not in valid: self.clear_status(); self.clear_status()\<close>, then
  \<^verbatim>\<open>if self.state() not in valid: raise RuntimeError(msg)\<close>.
\<close>

definition check_state :: "'w usb \<Rightarrow> DFUDevice \<Rightarrow> int list \<Rightarrow> string \<Rightarrow> ('w, unit) io" where
  "check_state E self valid msg =
     io_bind (state E self) (\<lambda>s1.
     io_bind (if s1 \<notin> set valid
              then io_bind (clear_status E self) (\<lambda>_.
                   io_bind (clear_status E self) (\<lambda>_. io_return ()))
              else io_return ()) (\<lambda>_.
     io_bind (state E self) (\<lambda>s2.
     if s2 \<notin> set valid then io_raise (RuntimeError msg) else io_return ())))"

definition write_page :: "'w usb \<Rightarrow> DFUDevice \<Rightarrow> int \<Rightarrow> bytes \<Rightarrow> ('w, unit) pio" where
  "write_page E self addr data =
     pio_bind (lift (check_state E self [IDLE, DOWNLOAD_IDLE]
                 ''DFU device not in correct state for writing memory.'')) (\<lambda>_.
     pio_bind (lift (\<lambda>\<sigma>. (addr2block addr (int (length data)), \<sigma>))) (\<lambda>block.
     pio_bind (lift (dnload E self block data)) (\<lambda>_.
     pio_bind (block_on_state E self DOWNLOAD_BUSY) (\<lambda>_.
     lift (assert_download_idle E self)))))"

definition read_mem :: "'w usb \<Rightarrow> DFUDevice \<Rightarrow> int \<Rightarrow> int \<Rightarrow> ('w, bytes) io" where
  "read_mem E self addr sz =
     io_bind (\<lambda>\<sigma>. (addr2block addr sz, \<sigma>)) (\<lambda>block.
     io_bind (check_state E self [IDLE, UPLOAD_IDLE]
                ''DFU device not in correct state for reading memory.'') (\<lambda>_.
     upload E self block sz))"

definition read_option_bytes :: "'w usb \<Rightarrow> DFUDevice \<Rightarrow> ('w, bytes) pio" where
  "read_option_bytes E self =
     pio_bind (lift (set_addr E self 0x1FFF7800)) (\<lambda>_.
     pio_bind (block_on_state E self DOWNLOAD_BUSY) (\<lambda>_.
     lift (read_mem E self 0 16)))"

text \<open>
  \<open>write_option_bytes\<close>: the first wait is outside the \<open>try\<close>; inside it, an
  \<open>OSError\<close> (a \<open>USBError\<close>) is printed and dropped, any other exception goes on.
\<close>

definition write_option_bytes :: "'w usb \<Rightarrow> DFUDevice \<Rightarrow> bytes \<Rightarrow> ('w, unit) pio" where
  "write_option_bytes E self m =
     pio_bind (block_on_state E self DOWNLOAD_BUSY) (\<lambda>_ \<sigma>.
       case pio_bind (write_page E self 0 m)
              (\<lambda>_. block_on_state E self DOWNLOAD_BUSY) \<sigma> of
         None \<Rightarrow> None
       | Some (Inl (USBError e), \<sigma>') \<Rightarrow> lift (print ''Warning: OSError with write_page'') \<sigma>'
       | Some (Inl x, \<sigma>') \<Rightarrow> Some (Inl x, \<sigma>')
       | Some (Inr u, \<sigma>') \<Rightarrow> Some (Inr (), \<sigma>'))"

text \<open>
  \<open>struct.unpack("<L", b)\<close> wants 4 bytes; \<open>struct.pack("<L", v)\<close> wants
  \<open>0 \<le> v < 2^32\<close>. Both raise \<open>struct.error\<close> otherwise.
\<close>

definition unpack_L :: "bytes \<Rightarrow> exn + int" where
  "unpack_L b =
     (if length b \<noteq> 4 then Inl StructError
      else Inr (b ! 0 + push_bit 8 (b ! 1) + push_bit 16 (b ! 2) + push_bit 24 (b ! 3)))"

definition pack_L :: "int \<Rightarrow> exn + bytes" where
  "pack_L v =
     (if v < 0 \<or> 2 ^ 32 \<le> v then Inl StructError
      else Inr [v AND 0xFF, (drop_bit 8 v) AND 0xFF, (drop_bit 16 v) AND 0xFF,
                (drop_bit 24 v) AND 0xFF])"

text \<open>\<open>op |= nBOOT0; op &= ~nSWBOOT0\<close>\<close>

definition boot_word :: "STM32L4_options \<Rightarrow> int \<Rightarrow> int" where
  "boot_word opts w = (w OR nBOOT0 opts) AND NOT (nSWBOOT0 opts)"

text \<open>The part of \<open>prepare_options_bytes_detach\<close> after \<open>m = self.read_option_bytes()\<close>.\<close>

definition rewrite_option_word ::
  "'w usb \<Rightarrow> STM32L4_options \<Rightarrow> DFUDevice \<Rightarrow> bytes \<Rightarrow> ('w, unit) pio" where
  "rewrite_option_word E opts self m =
     pio_bind (lift (\<lambda>\<sigma>. (unpack_L (take 4 m), \<sigma>))) (\<lambda>oldop.
     if oldop \<noteq> boot_word opts oldop then
       pio_bind (lift (print ''Rewriting option bytes...'')) (\<lambda>_.
       pio_bind (lift (\<lambda>\<sigma>. (pack_L (boot_word opts oldop), \<sigma>))) (\<lambda>p.
       write_option_bytes E self (p @ drop 4 m)))
     else lift (io_return ()))"

definition prepare_options_bytes_detach ::
  "'w usb \<Rightarrow> STM32L4_options \<Rightarrow> DFUDevice \<Rightarrow> ('w, unit) pio" where
  "prepare_options_bytes_detach E opts self =
     pio_bind (lift (read_mem E self 0 16)) (\<lambda>m0.
     pio_bind (write_option_bytes E self m0) (\<lambda>_.
     pio_bind (read_option_bytes E self) (\<lambda>m.
     rewrite_option_word E opts self m)))"

definition detach :: "'w usb \<Rightarrow> DFUDevice \<Rightarrow> ('w, dfu_status) io" where
  "detach E self =
     io_bind (check_state E self [IDLE, DOWNLOAD_IDLE]
                ''DFU device not in correct state for detaching.'') (\<lambda>_.
     io_bind (dnload E self 0 []) (\<lambda>_.
     get_status E self))"

subsection \<open>Discovery\<close>

text \<open>
  \<open>[d for d in _devs if ser == usb.util.get_string(d, d.serial_number)]\<close>: for each
  device, in order, the attribute \<open>d.serial_number\<close> is read first and what it gives
  is passed to \<open>get_string\<close> as the index; the first call that raises ends it.
\<close>

fun eligible_by_serial :: "'w usb \<Rightarrow> string \<Rightarrow> device list \<Rightarrow> ('w, device list) io" where
  "eligible_by_serial E ser [] \<sigma> = (Inr [], \<sigma>)"
| "eligible_by_serial E ser (d # ds) \<sigma> =
     (case extern (SerialNumber d) (serial_number E d) \<sigma> of
        (Inl e, \<sigma>1) \<Rightarrow> (Inl e, \<sigma>1)
      | (Inr index, \<sigma>1) \<Rightarrow>
          (case extern (GetString d index) (get_string E d index) \<sigma>1 of
             (Inl e, \<sigma>2) \<Rightarrow> (Inl e, \<sigma>2)
           | (Inr s, \<sigma>2) \<Rightarrow>
               (case eligible_by_serial E ser ds \<sigma>2 of
                  (Inl e, \<sigma>3) \<Rightarrow> (Inl e, \<sigma>3)
                | (Inr r, \<sigma>3) \<Rightarrow> (Inr (if ser = s then d # r else r), \<sigma>3))))"

text \<open>
  The two nested \<open>for\<close> loops of \<open>DFUDevice.find\<close>: the interfaces of one
  configuration by index, then the configurations. \<open>None\<close> is a loop that ended
  without the \<open>return\<close>.
\<close>

fun scan_interfaces ::
  "'w usb \<Rightarrow> device \<Rightarrow> int \<Rightarrow> usb_config \<Rightarrow> nat list \<Rightarrow> ('w, DFUDevice option) io" where
  "scan_interfaces E d altsetting cfg [] \<sigma> = (Inr None, \<sigma>)"
| "scan_interfaces E d altsetting cfg (intf_num # rest) \<sigma> =
     (case getitem cfg intf_num altsetting of
        Inl (USBError e) \<Rightarrow> scan_interfaces E d altsetting cfg rest \<sigma>
      | Inl x \<Rightarrow> (Inl x, \<sigma>)
      | Inr alt_intf \<Rightarrow>
          (case extern (SetInterfaceAltsetting d intf_num altsetting)
                  (set_interface_altsetting E d intf_num altsetting) \<sigma> of
             (Inl x, \<sigma>1) \<Rightarrow> (Inl x, \<sigma>1)
           | (Inr u, \<sigma>1) \<Rightarrow>
               (Inr (Some \<lparr>dev = d, intNum = intf_num, intf = alt_intf\<rparr>), \<sigma>1)))"

fun scan_configurations ::
  "'w usb \<Rightarrow> device \<Rightarrow> int \<Rightarrow> usb_config list \<Rightarrow> ('w, DFUDevice option) io" where
  "scan_configurations E d altsetting [] \<sigma> = (Inr None, \<sigma>)"
| "scan_configurations E d altsetting (cfg # cfgs) \<sigma> =
     (case scan_interfaces E d altsetting cfg [0..<length (interfaces cfg)] \<sigma> of
        (Inr None, \<sigma>1) \<Rightarrow> scan_configurations E d altsetting cfgs \<sigma>1
      | r \<Rightarrow> r)"

text \<open>The \<open>else\<close> branch of \<open>DFUDevice.find\<close>, which chooses \<open>self.dev\<close>.\<close>

definition select_device :: "'w usb \<Rightarrow> string option \<Rightarrow> ('w, device) io" where
  "select_device E ser =
     io_bind (extern CoreFind (core_find E)) (\<lambda>devs.
     case devs of
       FoundNone \<Rightarrow> io_raise (RuntimeError ''No ST DFU devices found.'')
     | _ \<Rightarrow>
       io_bind (case ser of
                  Some s \<Rightarrow> eligible_by_serial E s
                              (case devs of FoundOne d \<Rightarrow> [d] | FoundMany ds \<Rightarrow> ds | FoundNone \<Rightarrow> [])
                | None \<Rightarrow> io_return
                              (case devs of FoundOne d \<Rightarrow> [d] | FoundMany ds \<Rightarrow> ds | FoundNone \<Rightarrow> []))
         (\<lambda>eligible.
            if length eligible > 1 then io_raise NonUniqueDeviceError
            else if length eligible = 0 then io_raise (RuntimeError ''No ST DFU devices found.'')
            else io_return (eligible ! 0)))"

text \<open>
  \<open>DFUDevice.find\<close> on a fresh object: the result is the object with its three
  attributes set. The message of the last \<open>RuntimeError\<close> is kept as its format.
\<close>

definition DFUDevice_find ::
  "'w usb \<Rightarrow> int \<Rightarrow> string option \<Rightarrow> device option \<Rightarrow> ('w, DFUDevice) io" where
  "DFUDevice_find E altsetting ser dv =
     io_bind (case dv of Some d \<Rightarrow> io_return d | None \<Rightarrow> select_device E ser) (\<lambda>d.
     io_bind (extern (SetConfiguration d) (set_configuration E d)) (\<lambda>_.
     io_bind (scan_configurations E d altsetting (configurations E d)) (\<lambda>r.
     case r of
       Some self \<Rightarrow> io_return self
     | None \<Rightarrow> io_raise (RuntimeError ''No ST DFU alternate-%d found.''))))"

text \<open>
  The module's \<open>find\<close>: \<open>for i in range(attempts)\<close>, with \<open>n\<close> the attempts that
  are left; only a \<open>RuntimeError\<close> is caught.
\<close>

fun find_attempts ::
  "'w usb \<Rightarrow> string option \<Rightarrow> nat \<Rightarrow> device option \<Rightarrow> int \<Rightarrow> ('w, DFUDevice) io" where
  "find_attempts E dfu_serial 0 raw_device altsetting \<sigma> =
     (Inl (Exception ''no DFU found''), \<sigma>)"
| "find_attempts E dfu_serial (Suc n) raw_device altsetting \<sigma> =
     (case DFUDevice_find E altsetting dfu_serial raw_device \<sigma> of
        (Inr dfu, \<sigma>1) \<Rightarrow> (Inr dfu, \<sigma>1)
      | (Inl (RuntimeError msg), \<sigma>1) \<Rightarrow>
          find_attempts E dfu_serial n raw_device altsetting (snd (sleep E (1 / 4) \<sigma>1))
      | (Inl x, \<sigma>1) \<Rightarrow> (Inl x, \<sigma>1))"

definition find_dfu ::
  "'w usb \<Rightarrow> string option \<Rightarrow> int \<Rightarrow> device option \<Rightarrow> int \<Rightarrow> ('w, DFUDevice) io" where
  "find_dfu E dfu_serial attempts raw_device altsetting =
     find_attempts E dfu_serial (nat attempts) raw_device altsetting"

subsection \<open>A scripted backend\<close>

text \<open>
  A test double for the backend: the world is the list of answers still to come, one
  taken by each control transfer or enumeration; a call that finds no answer of its
  kind fails with a \<open>USBError\<close> without errno, and a sleep changes nothing. Its
  \<open>get_string\<close> raises \<open>TypeError\<close>, the index it is given being a string.
\<close>

datatype answer =
    AIn "exn + bytes"
  | AOut "exn + int"
  | AFind "exn + find_result"

definition mock_in :: "answer list \<Rightarrow> (exn + bytes) \<times> answer list" where
  "mock_in w = (case w of AIn r # rest \<Rightarrow> (r, rest) | _ \<Rightarrow> (Inl (USBError None), w))"

definition mock_out :: "answer list \<Rightarrow> (exn + int) \<times> answer list" where
  "mock_out w = (case w of AOut r # rest \<Rightarrow> (r, rest) | _ \<Rightarrow> (Inl (USBError None), w))"

definition mock_find :: "answer list \<Rightarrow> (exn + find_result) \<times> answer list" where
  "mock_find w = (case w of AFind r # rest \<Rightarrow> (r, rest) | _ \<Rightarrow> (Inl (USBError None), w))"

definition mock :: "answer list usb" where
  "mock = \<lparr>core_find = mock_find,
           serial_number = (\<lambda>d w. (Inr '''', w)),
           get_string = (\<lambda>d index w. (Inl TypeError, w)),
           set_configuration = (\<lambda>d w. (Inr (), w)),
           configurations = (\<lambda>d. []),
           set_interface_altsetting = (\<lambda>d i a w. (Inr (), w)),
           ctrl_in = (\<lambda>d rq v i n. mock_in),
           ctrl_out = (\<lambda>d rq v i b. mock_out),
           time_sleep = (\<lambda>t w. w)\<rparr>"

text \<open>A bus on which every enumeration finds no device, and nothing else works.\<close>

definition no_devices :: "unit usb" where
  "no_devices = \<lparr>core_find = (\<lambda>w. (Inr (FoundMany []), w)),
           serial_number = (\<lambda>d w. (Inl (USBError None), w)),
           get_string = (\<lambda>d index w. (Inl (USBError None), w)),
           set_configuration = (\<lambda>d w. (Inl (USBError None), w)),
           configurations = (\<lambda>d. []),
           set_interface_altsetting = (\<lambda>d i a w. (Inl (USBError None), w)),
           ctrl_in = (\<lambda>d rq v i n w. (Inl (USBError None), w)),
           ctrl_out = (\<lambda>d rq v i b w. (Inl (USBError None), w)),
           time_sleep = (\<lambda>t w. w)\<rparr>"

definition dfu0 :: DFUDevice where
  "dfu0 = \<lparr>dev = 0, intNum = 0, intf = \<lparr>bInterfaceNumber = 0, bAlternateSetting = 1\<rparr>\<rparr>"

definition start :: "answer list \<Rightarrow> answer list st" where
  "start w = \<lparr>world = w, trace = []\<rparr>"

text \<open>A status reply of 6 bytes with the given poll timeout (below 256) and state.\<close>

definition status_reply :: "int \<Rightarrow> int \<Rightarrow> answer" where
  "status_reply t s = AIn (Inr [0, t, 0, 0, s, 0])"

text \<open>
  Sixteen option bytes with both boot bits (27 and 26) set in the first word, the same
  bytes with bit 26 cleared, and the two bits as an option set.
\<close>

definition m16 :: bytes where
  "m16 = [0xAA, 0xF8, 0xEF, 0xFF, 0, 1, 2, 3, 4, 5, 6, 7, 8, 9, 10, 11]"

definition m16' :: bytes where
  "m16' = [0xAA, 0xF8, 0xEF, 0xFB, 0, 1, 2, 3, 4, 5, 6, 7, 8, 9, 10, 11]"

definition bits_27_26 :: STM32L4_options where
  "bits_27_26 = \<lparr>nBOOT0 = 2 ^ 27, nSWBOOT0 = 2 ^ 26\<rparr>"

text \<open>
  The answers of a device that is idle throughout, for one \<open>read_mem(0, 16)\<close> that
  returns \<open>m\<close>, for one \<open>write_option_bytes\<close> and for one \<open>read_option_bytes\<close> that
  returns \<open>m\<close>; and the events each of the three calls then leaves in the trace.
\<close>

definition answers_read_mem :: "bytes \<Rightarrow> answer list" where
  "answers_read_mem m = [status_reply 0 IDLE, status_reply 0 IDLE, AIn (Inr m)]"

definition answers_write :: "answer list" where
  "answers_write =
     [status_reply 0 IDLE, status_reply 0 IDLE, status_reply 0 IDLE, AOut (Inr 16),
      status_reply 0 DOWNLOAD_IDLE, status_reply 0 DOWNLOAD_IDLE, status_reply 0 DOWNLOAD_IDLE]"

definition answers_read_option :: "bytes \<Rightarrow> answer list" where
  "answers_read_option m =
     [AOut (Inr 5), status_reply 0 IDLE, status_reply 0 IDLE, status_reply 0 IDLE,
      AIn (Inr m)]"

text \<open>The events the properties speak of.\<close>

definition status_query :: "DFUDevice \<Rightarrow> event" where
  "status_query self = CtrlTransfer (dev self) RECEIVE GETSTATUS 0 (intNum self) (DLen 6)"

definition clear_query :: "DFUDevice \<Rightarrow> event" where
  "clear_query self = CtrlTransfer (dev self) SEND CLRSTATUS 0 (intNum self) DNone"

fun data_transfer :: "event \<Rightarrow> bool" where
  "data_transfer (CtrlTransfer d dir rq v i p) = (rq = DNLOAD \<or> rq = UPLOAD)"
| "data_transfer ev = False"

definition events_read_mem :: "event list" where
  "events_read_mem =
     [status_query dfu0, status_query dfu0,
      CtrlTransfer 0 RECEIVE UPLOAD (- 8388606) 0 (DLen 16)]"

definition events_write :: "bytes \<Rightarrow> event list" where
  "events_write m =
     [status_query dfu0, status_query dfu0, status_query dfu0,
      CtrlTransfer 0 SEND DNLOAD (- 8388606) 0 (DData m),
      status_query dfu0, status_query dfu0, status_query dfu0]"

definition events_read_option :: "event list" where
  "events_read_option =
     [CtrlTransfer 0 SEND DNLOAD 0 0 (DData [0x21, 0, 0x78, 0xFF, 0x1F]),
      status_query dfu0, status_query dfu0, status_query dfu0,
      CtrlTransfer 0 RECEIVE UPLOAD (- 8388606) 0 (DLen 16)]"

text \<open>\<open>grows Q \<sigma> \<sigma>'\<close>: from \<open>\<sigma>\<close> to \<open>\<sigma>'\<close> the trace gained events that all satisfy \<open>Q\<close>.\<close>

definition grows :: "(event \<Rightarrow> bool) \<Rightarrow> 'w st \<Rightarrow> 'w st \<Rightarrow> bool" where
  "grows Q \<sigma> \<sigma>' = (\<exists>evs. trace \<sigma>' = trace \<sigma> @ evs \<and> list_all Q evs)"

definition epipe :: answer where
  "epipe = AIn (Inl (USBError (Some EPIPE)))"

section \<open>Properties\<close>

subsection \<open>Address translation\<close>

text \<open>
  C2: \<open>addr2block\<close> and \<open>block2addr\<close> are inverses of each other on valid inputs: for a
  transfer size above 0 and an address at or above the flash base 0x08000000 that is
  a whole number of transfers away from it, translating to a block and back gives the
  address; and for every block and every transfer size above 0, translating to an
  address and back gives the block.
\<close>

theorem addr2block_block2addr_inverse:
  "(0 < sz \<and> 0x08000000 \<le> addr \<and> (addr - 0x08000000) mod sz = 0
      \<longrightarrow> (\<exists>b. addr2block addr sz = Inr b \<and> block2addr b sz = addr))
   \<and> (0 < sz \<longrightarrow> addr2block (block2addr block sz) sz = Inr block)"
  by (auto simp: addr2block_def block2addr_def)

theorem addr2block_block2addr_inverse_witness:
  "(0 < (2048::int) \<and> (0x08000000::int) \<le> 0x08004000
      \<and> (0x08004000 - 0x08000000) mod (2048::int) = 0)
   \<and> addr2block 0x08004000 2048 = Inr 10 \<and> block2addr 10 2048 = 0x08004000
   \<and> addr2block (block2addr 7 2048) 2048 = Inr 7"
  using addr2block_block2addr_inverse [of 2048 "0x08004000" 7]
  by (simp add: addr2block_def block2addr_def)

subsection \<open>What the basic operations add to the trace\<close>

lemma extern_trace: "extern ev f \<sigma> = (r, \<sigma>') \<Longrightarrow> trace \<sigma>' = trace \<sigma> @ [ev]"
  by (auto simp: extern_def split: prod.splits)

lemma sleep_snd:
  "snd (sleep E t \<sigma>) = \<lparr>world = time_sleep E t (world \<sigma>), trace = trace \<sigma> @ [Sleep t]\<rparr>"
  by (simp add: sleep_def extern_def)

lemma transfer_in_trace:
  "transfer_in E self GETSTATUS 0 6 \<sigma> = (r, \<sigma>') \<Longrightarrow> trace \<sigma>' = trace \<sigma> @ [status_query self]"
  by (auto simp: transfer_in_def status_query_def dest: extern_trace)

lemma get_status_loop_trace:
  "get_status_loop E self n \<sigma> = (r, \<sigma>') \<Longrightarrow>
     \<exists>k\<le>n. trace \<sigma>' = trace \<sigma> @ concat (replicate k [status_query self, Sleep (1 / 100)])
                          @ [status_query self]"
proof (induction n arbitrary: \<sigma>)
  case 0
  obtain r1 \<sigma>1 where t: "transfer_in E self GETSTATUS 0 6 \<sigma> = (r1, \<sigma>1)"
    by (cases "transfer_in E self GETSTATUS 0 6 \<sigma>")
  from "0" t have "\<sigma>' = \<sigma>1"
    by (subst (asm) get_status_loop.simps) (auto split: sum.splits exn.splits if_splits)
  with transfer_in_trace [OF t] show ?case by simp
next
  case (Suc n)
  obtain r1 \<sigma>1 where t: "transfer_in E self GETSTATUS 0 6 \<sigma> = (r1, \<sigma>1)"
    by (cases "transfer_in E self GETSTATUS 0 6 \<sigma>")
  note tr = transfer_in_trace [OF t]
  show ?case
  proof (cases "r1 = Inl (USBError (Some EPIPE))")
    case True
    with Suc.prems t
    have rec: "get_status_loop E self n (snd (sleep E (1 / 100) \<sigma>1)) = (r, \<sigma>')"
      by (subst (asm) get_status_loop.simps) simp
    from Suc.IH [OF rec] obtain k where k: "k \<le> n"
      and tk: "trace \<sigma>' = trace (snd (sleep E (1 / 100) \<sigma>1))
                 @ concat (replicate k [status_query self, Sleep (1 / 100)]) @ [status_query self]"
      by blast
    have "trace \<sigma>' = trace \<sigma> @ concat (replicate (Suc k) [status_query self, Sleep (1 / 100)])
                 @ [status_query self]"
      using tk tr by (simp add: sleep_snd)
    with k show ?thesis by (intro exI [of _ "Suc k"]) simp
  next
    case False
    with Suc.prems t have "\<sigma>' = \<sigma>1"
      by (subst (asm) get_status_loop.simps) (auto split: sum.splits exn.splits if_splits)
    with tr show ?thesis by (intro exI [of _ 0]) simp
  qed
qed

lemma get_status_trace:
  "get_status E self \<sigma> = (r, \<sigma>') \<Longrightarrow>
     \<exists>k\<le>3. trace \<sigma>' = trace \<sigma> @ concat (replicate k [status_query self, Sleep (1 / 100)])
                          @ [status_query self]"
  by (auto simp: get_status_def io_bind_def split: prod.splits sum.splits
           dest!: get_status_loop_trace)

subsection \<open>The scripted backend, step by step\<close>

lemma mock_transfer_in:
  "transfer_in mock self rq v n \<lparr>world = AIn r # rest, trace = tr\<rparr>
     = (r, \<lparr>world = rest, trace = tr @ [CtrlTransfer (dev self) RECEIVE rq v (intNum self) (DLen n)]\<rparr>)"
  by (simp add: transfer_in_def extern_def mock_def mock_in_def)

lemma mock_sleep:
  "snd (sleep mock t \<lparr>world = w, trace = tr\<rparr>) = \<lparr>world = w, trace = tr @ [Sleep t]\<rparr>"
  by (simp add: sleep_def extern_def mock_def)

lemma mock_loop_ok:
  "get_status_loop mock self n \<lparr>world = AIn (Inr b) # rest, trace = tr\<rparr>
     = (Inr b, \<lparr>world = rest, trace = tr @ [status_query self]\<rparr>)"
  by (subst get_status_loop.simps) (simp add: mock_transfer_in status_query_def)

lemma mock_loop_other:
  "e \<noteq> USBError (Some EPIPE) \<Longrightarrow>
   get_status_loop mock self n \<lparr>world = AIn (Inl e) # rest, trace = tr\<rparr>
     = (Inl e, \<lparr>world = rest, trace = tr @ [status_query self]\<rparr>)"
  by (subst get_status_loop.simps)
     (auto simp: mock_transfer_in status_query_def split: exn.splits)

lemma mock_loop_epipe_last:
  "get_status_loop mock self 0 \<lparr>world = epipe # rest, trace = tr\<rparr>
     = (Inl (RuntimeError ''Failed to get status from DFU.''),
        \<lparr>world = rest, trace = tr @ [status_query self]\<rparr>)"
  by (subst get_status_loop.simps) (simp add: mock_transfer_in status_query_def epipe_def)

lemma mock_loop_epipe_retry:
  "get_status_loop mock self (Suc n) \<lparr>world = epipe # rest, trace = tr\<rparr>
     = get_status_loop mock self n
         \<lparr>world = rest, trace = tr @ [status_query self, Sleep (1 / 100)]\<rparr>"
  by (subst get_status_loop.simps)
     (simp add: mock_transfer_in status_query_def epipe_def mock_sleep)

lemma mock_loop_retries:
  "k \<le> n \<Longrightarrow>
   get_status_loop mock self n \<lparr>world = replicate k epipe @ rest, trace = tr\<rparr>
     = get_status_loop mock self (n - k)
         \<lparr>world = rest, trace = tr @ concat (replicate k [status_query self, Sleep (1 / 100)])\<rparr>"
proof (induction k arbitrary: n tr)
  case 0
  then show ?case by simp
next
  case (Suc k)
  then obtain m where n: "n = Suc m" and km: "k \<le> m" by (cases n) auto
  show ?case using Suc.IH [OF km] by (simp add: n mock_loop_epipe_retry)
qed

subsection \<open>Status queries\<close>

text \<open>
  C6: \<open>get_status\<close> retries the status transfer only on a \<open>USBError\<close> whose errno is
  EPIPE, at most 3 times, sleeping 10 ms before each retry, and then raises the fatal
  \<open>RuntimeError\<close>; any other error goes to the caller at once. With any backend, a
  call makes at most 3 retries, each after a sleep of 1/100 s. With the scripted one:
  after \<open>k \<le> 3\<close> stalls a reply is decoded and returned; 4 stalls in a row end in the
  \<open>RuntimeError\<close> after the fourth transfer, with no fifth and no sleep after it; an
  error of another kind after \<open>k \<le> 3\<close> stalls is returned as it is, with no further
  transfer.
\<close>

theorem get_status_retries:
  "(get_status E self \<sigma> = (r, \<sigma>') \<longrightarrow>
      (\<exists>k\<le>3. trace \<sigma>' = trace \<sigma> @ concat (replicate k [status_query self, Sleep (1 / 100)])
                           @ [status_query self]))
   \<and> (k \<le> 3 \<longrightarrow>
        get_status mock self \<lparr>world = replicate k epipe @ AIn (Inr b) # rest, trace = tr\<rparr>
          = (DFU_status b,
             \<lparr>world = rest,
              trace = tr @ concat (replicate k [status_query self, Sleep (1 / 100)])
                         @ [status_query self]\<rparr>))
   \<and> get_status mock self \<lparr>world = replicate 4 epipe @ rest, trace = tr\<rparr>
        = (Inl (RuntimeError ''Failed to get status from DFU.''),
           \<lparr>world = rest,
            trace = tr @ concat (replicate 3 [status_query self, Sleep (1 / 100)])
                       @ [status_query self]\<rparr>)
   \<and> (k \<le> 3 \<and> e \<noteq> USBError (Some EPIPE) \<longrightarrow>
        get_status mock self \<lparr>world = replicate k epipe @ AIn (Inl e) # rest, trace = tr\<rparr>
          = (Inl e,
             \<lparr>world = rest,
              trace = tr @ concat (replicate k [status_query self, Sleep (1 / 100)])
                         @ [status_query self]\<rparr>))"
proof (intro conjI impI)
  assume "get_status E self \<sigma> = (r, \<sigma>')"
  then show "\<exists>k\<le>3. trace \<sigma>' = trace \<sigma> @ concat (replicate k [status_query self, Sleep (1 / 100)])
                           @ [status_query self]"
    by (rule get_status_trace)
next
  assume "k \<le> 3"
  then show "get_status mock self \<lparr>world = replicate k epipe @ AIn (Inr b) # rest, trace = tr\<rparr>
          = (DFU_status b,
             \<lparr>world = rest,
              trace = tr @ concat (replicate k [status_query self, Sleep (1 / 100)])
                         @ [status_query self]\<rparr>)"
    by (simp add: get_status_def io_bind_def mock_loop_retries mock_loop_ok)
next
  have "get_status_loop mock self 3 \<lparr>world = replicate 3 epipe @ epipe # rest, trace = tr\<rparr>
          = (Inl (RuntimeError ''Failed to get status from DFU.''),
             \<lparr>world = rest,
              trace = tr @ concat (replicate 3 [status_query self, Sleep (1 / 100)])
                       @ [status_query self]\<rparr>)"
    by (simp only: mock_loop_retries [of 3 3] diff_self_eq_0 mock_loop_epipe_last append_assoc)
  moreover have "replicate 4 epipe @ rest = replicate 3 epipe @ epipe # rest"
    by (simp add: numeral_Bit0 numeral_Bit1 replicate_append_same)
  ultimately show "get_status mock self \<lparr>world = replicate 4 epipe @ rest, trace = tr\<rparr>
        = (Inl (RuntimeError ''Failed to get status from DFU.''),
           \<lparr>world = rest,
            trace = tr @ concat (replicate 3 [status_query self, Sleep (1 / 100)])
                       @ [status_query self]\<rparr>)"
    by (simp add: get_status_def io_bind_def)
next
  assume "k \<le> 3 \<and> e \<noteq> USBError (Some EPIPE)"
  then show "get_status mock self \<lparr>world = replicate k epipe @ AIn (Inl e) # rest, trace = tr\<rparr>
          = (Inl e,
             \<lparr>world = rest,
              trace = tr @ concat (replicate k [status_query self, Sleep (1 / 100)])
                         @ [status_query self]\<rparr>)"
    by (simp add: get_status_def io_bind_def mock_loop_retries mock_loop_other)
qed

theorem get_status_retries_witness:
  "(2::nat) \<le> 3 \<and> USBError None \<noteq> USBError (Some EPIPE)
   \<and> get_status mock dfu0 (start [epipe, epipe, status_reply 5 IDLE, epipe])
       = (Inr \<lparr>st_status = 0, st_timeout = 5, st_state = IDLE, st_istring = 0\<rparr>,
          \<lparr>world = [epipe],
           trace = [status_query dfu0, Sleep (1 / 100), status_query dfu0, Sleep (1 / 100),
                    status_query dfu0]\<rparr>)
   \<and> get_status mock dfu0 (start [epipe, epipe, AIn (Inl (USBError None)), epipe])
       = (Inl (USBError None),
          \<lparr>world = [epipe],
           trace = [status_query dfu0, Sleep (1 / 100), status_query dfu0, Sleep (1 / 100),
                    status_query dfu0]\<rparr>)"
  using get_status_retries [where E = mock and self = dfu0 and k = 2 and e = "USBError None"
      and b = "[0, 5, 0, 0, IDLE, 0]" and rest = "[epipe]" and tr = "[]"
      and \<sigma> = "start [epipe, epipe, status_reply 5 IDLE, epipe]"
      and r = "Inr \<lparr>st_status = 0, st_timeout = 5, st_state = IDLE, st_istring = 0\<rparr>"
      and \<sigma>' = "\<lparr>world = [epipe],
           trace = [status_query dfu0, Sleep (1 / 100), status_query dfu0, Sleep (1 / 100),
                    status_query dfu0]\<rparr>"]
  by (simp add: start_def status_reply_def DFU_status_def numeral_2_eq_2)

subsection \<open>Waiting for a state to pass\<close>

lemma mock_get_status_ok:
  "get_status mock self \<lparr>world = AIn (Inr b) # rest, trace = tr\<rparr>
     = (DFU_status b, \<lparr>world = rest, trace = tr @ [status_query self]\<rparr>)"
  by (simp add: get_status_def io_bind_def mock_loop_ok)

lemma DFU_status_reply:
  "DFU_status [0, t, 0, 0, s, 0]
     = Inr \<lparr>st_status = 0, st_timeout = t, st_state = s, st_istring = 0\<rparr>"
  by (simp add: DFU_status_def)

lemma mock_block_loop_script:
  "s' \<noteq> target \<Longrightarrow> st_state s = target \<Longrightarrow>
   block_loop mock self target s
       \<lparr>world = map (\<lambda>t. status_reply t target) ts @ status_reply t' s' # rest, trace = tr\<rparr>
     = Some (Inr (),
         \<lparr>world = rest,
          trace = tr @ [Sleep (of_int (st_timeout s) / 1000), status_query self]
                     @ concat (map (\<lambda>t. [Sleep (of_int t / 1000), status_query self]) ts)\<rparr>)"
proof (induction ts arbitrary: s tr)
  case Nil
  then show ?case
    apply (subst block_loop.simps)
    apply (simp add: mock_sleep status_reply_def mock_get_status_ok DFU_status_reply)
    apply (subst block_loop.simps)
    apply simp
    done
next
  case (Cons t ts)
  have st: "st_state \<lparr>st_status = 0, st_timeout = t, st_state = target, st_istring = 0\<rparr> = target"
    by simp
  show ?case
    apply (subst block_loop.simps)
    apply (simp add: Cons.prems mock_sleep status_reply_def mock_get_status_ok DFU_status_reply)
    using Cons.IH [OF Cons.prems(1) st]
    apply (simp add: status_reply_def)
    done
qed

lemma block_loop_done:
  "st_state s \<noteq> target \<Longrightarrow> block_loop E self target s \<sigma> = Some (Inr (), \<sigma>)"
  by (subst block_loop.simps) simp

lemma block_loop_again:
  "st_state s = target \<Longrightarrow>
   block_loop E self target s \<sigma>
     = block_on_state E self target (snd (sleep E (of_int (st_timeout s) / 1000) \<sigma>))"
  by (subst block_loop.simps) (simp add: block_on_state_def)

lemma block_on_state_unfold:
  "get_status E self \<sigma> = (Inr s, \<sigma>1) \<Longrightarrow>
   block_on_state E self target \<sigma>
     = (if st_state s = target
        then block_on_state E self target (snd (sleep E (of_int (st_timeout s) / 1000) \<sigma>1))
        else Some (Inr (), \<sigma>1))"
  by (simp add: block_on_state_def [of E self target \<sigma>] block_loop_done block_loop_again)

lemma concat_alternate:
  "concat (map (\<lambda>t. [a, f t]) ts) @ [a] = a # concat (map (\<lambda>t. [f t, a]) ts)"
  by (induction ts) simp_all

lemma mock_block_on_state_script:
  assumes "s' \<noteq> target"
  shows "block_on_state mock self target
       \<lparr>world = map (\<lambda>t. status_reply t target) ts @ status_reply t' s' # rest, trace = tr\<rparr>
     = Some (Inr (),
         \<lparr>world = rest,
          trace = tr @ concat (map (\<lambda>t. [status_query self, Sleep (of_int t / 1000)]) ts)
                     @ [status_query self]\<rparr>)"
proof (cases ts)
  case Nil
  with assms show ?thesis
    by (simp add: block_on_state_def status_reply_def mock_get_status_ok DFU_status_reply
          block_loop_done)
next
  case (Cons t ts')
  have st: "st_state \<lparr>st_status = 0, st_timeout = t, st_state = target, st_istring = 0\<rparr> = target"
    by simp
  have "block_on_state mock self target
       \<lparr>world = map (\<lambda>t. status_reply t target) ts @ status_reply t' s' # rest, trace = tr\<rparr>
     = block_loop mock self target
         \<lparr>st_status = 0, st_timeout = t, st_state = target, st_istring = 0\<rparr>
         \<lparr>world = map (\<lambda>t. status_reply t target) ts' @ status_reply t' s' # rest,
          trace = tr @ [status_query self]\<rparr>"
    by (simp add: Cons block_on_state_def status_reply_def mock_get_status_ok DFU_status_reply)
  also have "\<dots> = Some (Inr (),
         \<lparr>world = rest,
          trace = (tr @ [status_query self]) @ [Sleep (of_int t / 1000), status_query self]
                     @ concat (map (\<lambda>t. [Sleep (of_int t / 1000), status_query self]) ts')\<rparr>)"
    using mock_block_loop_script [OF assms st, of self ts' t' rest "tr @ [status_query self]"]
    by simp
  finally show ?thesis
    by (simp add: Cons concat_alternate [of "status_query self" "\<lambda>t. Sleep (of_int t / 1000)"])
qed

text \<open>
  C5: \<open>block_on_state target\<close> returns as soon as a status query reports a state other
  than \<open>target\<close>, and sleeps the poll timeout the device reported, in milliseconds,
  before the next query. With any backend: after a query that reports \<open>s\<close>, the call
  is over when the state of \<open>s\<close> is not \<open>target\<close>, and otherwise goes on as a fresh
  call after a sleep of \<open>st_timeout s / 1000\<close> seconds. With the scripted backend
  answering \<open>target\<close> with the timeouts \<open>ts\<close> and then another state: the call
  returns, having made one query for each answer, \<open>length ts + 1\<close> in all, and one
  sleep after each of the first \<open>length ts\<close> answers, of that answer's timeout; for two
  answers DownloadBusy and then DownloadIdle these are 3 queries and 2 sleeps.
\<close>

theorem block_on_state_polls:
  "(get_status E self \<sigma> = (Inr s, \<sigma>') \<longrightarrow>
      block_on_state E self target \<sigma>
        = (if st_state s = target
           then block_on_state E self target (snd (sleep E (of_int (st_timeout s) / 1000) \<sigma>'))
           else Some (Inr (), \<sigma>')))
   \<and> (s' \<noteq> target \<longrightarrow>
        block_on_state mock self target
            \<lparr>world = map (\<lambda>t. status_reply t target) ts @ status_reply t' s' # rest,
             trace = tr\<rparr>
          = Some (Inr (),
              \<lparr>world = rest,
               trace = tr @ concat (map (\<lambda>t. [status_query self, Sleep (of_int t / 1000)]) ts)
                          @ [status_query self]\<rparr>))"
  using block_on_state_unfold [of E self \<sigma> s \<sigma>' target]
    mock_block_on_state_script [of s' target self ts t' rest tr]
  by blast

theorem block_on_state_polls_witness:
  "DOWNLOAD_IDLE \<noteq> DOWNLOAD_BUSY
   \<and> get_status mock dfu0 (start [status_reply 5 DOWNLOAD_BUSY, status_reply 7 DOWNLOAD_BUSY,
          status_reply 9 DOWNLOAD_IDLE])
       = (Inr \<lparr>st_status = 0, st_timeout = 5, st_state = DOWNLOAD_BUSY, st_istring = 0\<rparr>,
          \<lparr>world = [status_reply 7 DOWNLOAD_BUSY, status_reply 9 DOWNLOAD_IDLE],
           trace = [status_query dfu0]\<rparr>)
   \<and> block_on_state mock dfu0 DOWNLOAD_BUSY
       (start [status_reply 5 DOWNLOAD_BUSY, status_reply 7 DOWNLOAD_BUSY,
          status_reply 9 DOWNLOAD_IDLE])
     = Some (Inr (),
         \<lparr>world = [],
          trace = [status_query dfu0, Sleep (5 / 1000), status_query dfu0, Sleep (7 / 1000),
                   status_query dfu0]\<rparr>)"
  using block_on_state_polls [where E = mock and self = dfu0 and target = DOWNLOAD_BUSY
      and s' = DOWNLOAD_IDLE and ts = "[5, 7]" and t' = 9 and rest = "[]" and tr = "[]"
      and \<sigma> = "start [status_reply 5 DOWNLOAD_BUSY, status_reply 7 DOWNLOAD_BUSY,
          status_reply 9 DOWNLOAD_IDLE]"
      and s = "\<lparr>st_status = 0, st_timeout = 5, st_state = DOWNLOAD_BUSY, st_istring = 0\<rparr>"
      and \<sigma>' = "\<lparr>world = [status_reply 7 DOWNLOAD_BUSY, status_reply 9 DOWNLOAD_IDLE],
           trace = [status_query dfu0]\<rparr>"]
  by (auto simp: start_def status_reply_def mock_get_status_ok DFU_status_reply
        DOWNLOAD_IDLE_def DOWNLOAD_BUSY_def)

subsection \<open>Erasing a page\<close>

lemma transfer_out_trace:
  "transfer_out E self rq v d \<sigma> = (r, \<sigma>') \<Longrightarrow>
   trace \<sigma>' = trace \<sigma> @ [CtrlTransfer (dev self) SEND rq v (intNum self)
                                (case d of None \<Rightarrow> DNone | Some b \<Rightarrow> DData b)]"
  by (auto simp: transfer_out_def dest: extern_trace)

lemma mock_transfer_out:
  "transfer_out mock self rq v d \<lparr>world = AOut r # rest, trace = tr\<rparr>
     = (r, \<lparr>world = rest,
            trace = tr @ [CtrlTransfer (dev self) SEND rq v (intNum self)
                            (case d of None \<Rightarrow> DNone | Some b \<Rightarrow> DData b)]\<rparr>)"
  by (simp add: transfer_out_def extern_def mock_def mock_out_def)

lemma erase_addr2list: "erase E self a = dnload E self 0 (0x41 # addr2list a)"
  by (simp add: erase_def addr2list_def)

text \<open>
  C1, as amended: \<open>erase a\<close> is the single call
  \<open>dnload(0, [0x41] + the four little-endian bytes of a)\<close>: it adds that one transfer to
  the trace and returns what the transfer returns. It makes no status query, waits for
  nothing and asserts nothing; \<open>mass_erase\<close> is the operation that waits and asserts.
  The counterexample: on a device that takes the download and then reports the state
  Error, \<open>erase\<close> returns the transfer's result 5, with the status reply still
  unread.
\<close>

theorem erase_only_downloads:
  "erase E self a \<sigma> = dnload E self 0 (0x41 # addr2list a) \<sigma>
   \<and> trace (snd (erase E self a \<sigma>))
       = trace \<sigma> @ [CtrlTransfer (dev self) SEND DNLOAD 0 (intNum self)
                        (DData (0x41 # addr2list a))]
   \<and> (fst (erase E self a \<sigma>), world (snd (erase E self a \<sigma>)))
       = ctrl_out E (dev self) DNLOAD 0 (intNum self) (Some (0x41 # addr2list a)) (world \<sigma>)"
  by (simp add: erase_addr2list dnload_def transfer_out_def extern_def split: prod.splits)

theorem erase_only_downloads_witness:
  "erase mock dfu0 0x08004000 (start [AOut (Inr 5), status_reply 0 DOWNLOAD_BUSY])
     = dnload mock dfu0 0 [0x41, 0, 0x40, 0, 8]
         (start [AOut (Inr 5), status_reply 0 DOWNLOAD_BUSY])
   \<and> trace (snd (erase mock dfu0 0x08004000
                   (start [AOut (Inr 5), status_reply 0 DOWNLOAD_BUSY])))
       = [CtrlTransfer 0 SEND DNLOAD 0 0 (DData [0x41, 0, 0x40, 0, 8])]"
  using erase_only_downloads [of mock dfu0 "0x08004000"
      "start [AOut (Inr 5), status_reply 0 DOWNLOAD_BUSY]"]
  by (auto simp: addr2list_def start_def dfu0_def)

theorem erase_blocks_counterexample:
  "erase mock dfu0 0x08004000 (start [AOut (Inr 5), status_reply 0 ERROR])
     = (Inr 5,
        \<lparr>world = [status_reply 0 ERROR],
         trace = [CtrlTransfer 0 SEND DNLOAD 0 0 (DData [0x41, 0, 0x40, 0, 8])]\<rparr>)
   \<and> state mock dfu0 \<lparr>world = [status_reply 0 ERROR],
         trace = [CtrlTransfer 0 SEND DNLOAD 0 0 (DData [0x41, 0, 0x40, 0, 8])]\<rparr>
     = (Inr ERROR,
        \<lparr>world = [],
         trace = [CtrlTransfer 0 SEND DNLOAD 0 0 (DData [0x41, 0, 0x40, 0, 8]),
                  status_query dfu0]\<rparr>)
   \<and> ERROR \<noteq> DOWNLOAD_IDLE"
  by (simp add: erase_def dnload_def start_def mock_transfer_out dfu0_def state_def
        io_bind_def io_return_def mock_get_status_ok status_reply_def DFU_status_reply
        ERROR_def DOWNLOAD_IDLE_def)

subsection \<open>The state precondition\<close>

lemma clear_status_trace:
  "clear_status E self \<sigma> = (r, \<sigma>') \<Longrightarrow> trace \<sigma>' = trace \<sigma> @ [clear_query self]"
  by (auto simp: clear_status_def clear_query_def dest: transfer_out_trace)

lemma no_data_transfer_status:
  "list_all (\<lambda>ev. \<not> data_transfer ev)
     (concat (replicate k [status_query self, Sleep (1 / 100)]) @ [status_query self])"
  by (induction k) (simp_all add: status_query_def)

lemma state_trace:
  assumes "state E self \<sigma> = (r, \<sigma>')"
  shows "\<exists>evs. trace \<sigma>' = trace \<sigma> @ evs \<and> list_all (\<lambda>ev. \<not> data_transfer ev) evs"
proof -
  obtain r0 where "get_status E self \<sigma> = (r0, \<sigma>')"
    using assms
    by (cases "get_status E self \<sigma>")
       (auto simp: state_def io_bind_def io_return_def split: sum.splits)
  from get_status_trace [OF this] no_data_transfer_status show ?thesis by blast
qed

lemma mock_state_ok:
  "state mock self \<lparr>world = status_reply t s # rest, trace = tr\<rparr>
     = (Inr s, \<lparr>world = rest, trace = tr @ [status_query self]\<rparr>)"
  by (simp add: state_def io_bind_def io_return_def status_reply_def mock_get_status_ok
        DFU_status_reply)

lemma mock_clear_status:
  "clear_status mock self \<lparr>world = AOut r # rest, trace = tr\<rparr>
     = (r, \<lparr>world = rest, trace = tr @ [clear_query self]\<rparr>)"
  by (simp add: clear_status_def clear_query_def mock_transfer_out)

lemma check_state_fails:
  assumes "state E self \<sigma> = (Inr s1, \<sigma>1)"
      and "clear_status E self \<sigma>1 = (Inr n1, \<sigma>2)"
      and "clear_status E self \<sigma>2 = (Inr n2, \<sigma>3)"
      and "state E self \<sigma>3 = (Inr s2, \<sigma>4)"
      and "s1 \<notin> set valid" and "s2 \<notin> set valid"
  shows "check_state E self valid msg \<sigma> = (Inl (RuntimeError msg), \<sigma>4)"
  using assms by (simp add: check_state_def io_bind_def io_return_def io_raise_def)

text \<open>
  C3: \<open>write_page\<close>, \<open>read_mem\<close> and \<open>detach\<close> open in the same way. When the state
  read first is not valid for the operation (Error is valid for none of them),
  \<open>clear_status\<close> is sent twice; when the state read after that is still not valid, the
  operation raises its \<open>RuntimeError\<close>, and between its start and that error only
  status queries, their retry sleeps and the two clear requests reached the device:
  no download and no upload.
\<close>

theorem state_precondition_failure:
  assumes "state E self \<sigma> = (Inr s, \<sigma>a)"
      and "clear_status E self \<sigma>a = (Inr n, \<sigma>b)"
      and "clear_status E self \<sigma>b = (Inr n', \<sigma>c)"
      and "state E self \<sigma>c = (Inr s', \<sigma>d)"
  shows "(s \<notin> {IDLE, DOWNLOAD_IDLE} \<and> s' \<notin> {IDLE, DOWNLOAD_IDLE} \<longrightarrow>
            write_page E self addr data \<sigma>
              = Some (Inl (RuntimeError ''DFU device not in correct state for writing memory.''),
                      \<sigma>d)
          \<and> detach E self \<sigma>
              = (Inl (RuntimeError ''DFU device not in correct state for detaching.''), \<sigma>d))
       \<and> (s \<notin> {IDLE, UPLOAD_IDLE} \<and> s' \<notin> {IDLE, UPLOAD_IDLE} \<and> sz \<noteq> 0 \<longrightarrow>
            read_mem E self addr sz \<sigma>
              = (Inl (RuntimeError ''DFU device not in correct state for reading memory.''),
                 \<sigma>d))
       \<and> (\<exists>evs evs'. trace \<sigma>d = trace \<sigma> @ evs @ [clear_query self, clear_query self] @ evs'
             \<and> list_all (\<lambda>ev. \<not> data_transfer ev)
                  (evs @ [clear_query self, clear_query self] @ evs'))"
proof (intro conjI impI)
  assume "s \<notin> {IDLE, DOWNLOAD_IDLE} \<and> s' \<notin> {IDLE, DOWNLOAD_IDLE}"
  then have "check_state E self [IDLE, DOWNLOAD_IDLE] msg \<sigma> = (Inl (RuntimeError msg), \<sigma>d)"
    for msg
    using check_state_fails [OF assms, of "[IDLE, DOWNLOAD_IDLE]"] by simp
  then show "write_page E self addr data \<sigma>
              = Some (Inl (RuntimeError ''DFU device not in correct state for writing memory.''),
                      \<sigma>d)"
    and "detach E self \<sigma>
              = (Inl (RuntimeError ''DFU device not in correct state for detaching.''), \<sigma>d)"
    by (simp_all add: write_page_def detach_def pio_bind_def lift_def io_bind_def)
next
  assume a: "s \<notin> {IDLE, UPLOAD_IDLE} \<and> s' \<notin> {IDLE, UPLOAD_IDLE} \<and> sz \<noteq> 0"
  then have "check_state E self [IDLE, UPLOAD_IDLE] msg \<sigma> = (Inl (RuntimeError msg), \<sigma>d)"
    for msg
    using check_state_fails [OF assms, of "[IDLE, UPLOAD_IDLE]"] by simp
  with a show "read_mem E self addr sz \<sigma>
              = (Inl (RuntimeError ''DFU device not in correct state for reading memory.''),
                 \<sigma>d)"
    by (simp add: read_mem_def io_bind_def addr2block_def)
next
  from state_trace [OF assms(1)] obtain evs where
    e1: "trace \<sigma>a = trace \<sigma> @ evs" "list_all (\<lambda>ev. \<not> data_transfer ev) evs" by blast
  from state_trace [OF assms(4)] obtain evs' where
    e2: "trace \<sigma>d = trace \<sigma>c @ evs'" "list_all (\<lambda>ev. \<not> data_transfer ev) evs'" by blast
  have "trace \<sigma>d = trace \<sigma> @ evs @ [clear_query self, clear_query self] @ evs'"
    using e1 e2 clear_status_trace [OF assms(2)] clear_status_trace [OF assms(3)] by simp
  moreover have "list_all (\<lambda>ev. \<not> data_transfer ev)
                  (evs @ [clear_query self, clear_query self] @ evs')"
    using e1 e2 by (simp add: clear_query_def)
  ultimately show "\<exists>evs evs'. trace \<sigma>d = trace \<sigma> @ evs @ [clear_query self, clear_query self] @ evs'
             \<and> list_all (\<lambda>ev. \<not> data_transfer ev)
                  (evs @ [clear_query self, clear_query self] @ evs')"
    by blast
qed

theorem state_precondition_failure_witness:
  "ERROR \<notin> {IDLE, DOWNLOAD_IDLE} \<and> ERROR \<notin> {IDLE, UPLOAD_IDLE} \<and> (16::int) \<noteq> 0
   \<and> write_page mock dfu0 0x08000000 [1, 2]
         (start [status_reply 0 ERROR, AOut (Inr 0), AOut (Inr 0), status_reply 0 ERROR])
       = Some (Inl (RuntimeError ''DFU device not in correct state for writing memory.''),
           \<lparr>world = [],
            trace = [status_query dfu0, clear_query dfu0, clear_query dfu0, status_query dfu0]\<rparr>)
   \<and> detach mock dfu0
         (start [status_reply 0 ERROR, AOut (Inr 0), AOut (Inr 0), status_reply 0 ERROR])
       = (Inl (RuntimeError ''DFU device not in correct state for detaching.''),
           \<lparr>world = [],
            trace = [status_query dfu0, clear_query dfu0, clear_query dfu0, status_query dfu0]\<rparr>)
   \<and> read_mem mock dfu0 0x08000000 16
         (start [status_reply 0 ERROR, AOut (Inr 0), AOut (Inr 0), status_reply 0 ERROR])
       = (Inl (RuntimeError ''DFU device not in correct state for reading memory.''),
           \<lparr>world = [],
            trace = [status_query dfu0, clear_query dfu0, clear_query dfu0, status_query dfu0]\<rparr>)"
proof -
  have h1: "state mock dfu0
              (start [status_reply 0 ERROR, AOut (Inr 0), AOut (Inr 0), status_reply 0 ERROR])
            = (Inr ERROR,
               \<lparr>world = [AOut (Inr 0), AOut (Inr 0), status_reply 0 ERROR],
                trace = [status_query dfu0]\<rparr>)"
    by (simp add: start_def mock_state_ok)
  have h2: "clear_status mock dfu0
              \<lparr>world = [AOut (Inr 0), AOut (Inr 0), status_reply 0 ERROR],
               trace = [status_query dfu0]\<rparr>
            = (Inr 0,
               \<lparr>world = [AOut (Inr 0), status_reply 0 ERROR],
                trace = [status_query dfu0, clear_query dfu0]\<rparr>)"
    by (simp add: mock_clear_status)
  have h3: "clear_status mock dfu0
              \<lparr>world = [AOut (Inr 0), status_reply 0 ERROR],
               trace = [status_query dfu0, clear_query dfu0]\<rparr>
            = (Inr 0,
               \<lparr>world = [status_reply 0 ERROR],
                trace = [status_query dfu0, clear_query dfu0, clear_query dfu0]\<rparr>)"
    by (simp add: mock_clear_status)
  have h4: "state mock dfu0
              \<lparr>world = [status_reply 0 ERROR],
               trace = [status_query dfu0, clear_query dfu0, clear_query dfu0]\<rparr>
            = (Inr ERROR,
               \<lparr>world = [],
                trace = [status_query dfu0, clear_query dfu0, clear_query dfu0,
                         status_query dfu0]\<rparr>)"
    by (simp add: mock_state_ok)
  show ?thesis
    using state_precondition_failure [OF h1 h2 h3 h4, of "0x08000000" "[1, 2]" 16]
    by (simp add: ERROR_def IDLE_def DOWNLOAD_IDLE_def UPLOAD_IDLE_def)
qed

subsection \<open>The assertion after a write or an erase\<close>

lemma assert_download_idle_fails:
  "state E self \<sigma> = (Inr s, \<sigma>') \<Longrightarrow> s \<noteq> DOWNLOAD_IDLE \<Longrightarrow>
   assert_download_idle E self \<sigma> = (Inl AssertionError, \<sigma>')"
  by (auto simp: assert_download_idle_def io_bind_def io_raise_def)

text \<open>
  C4: in \<open>mass_erase\<close> and in \<open>write_page\<close>, once the download is sent and
  \<open>block_on_state(DOWNLOAD_BUSY)\<close> has returned, a status query that reports any state
  other than DownloadIdle, Error for one, makes the operation fail with the
  \<open>AssertionError\<close> of its \<open>assert\<close>; it does not return successfully.
\<close>

theorem postcondition_violation:
  assumes "block_on_state E self DOWNLOAD_BUSY \<sigma>b = Some (Inr (), \<sigma>c)"
      and "state E self \<sigma>c = (Inr s, \<sigma>d)"
      and "s \<noteq> DOWNLOAD_IDLE"
  shows "(dnload E self 0 [0x41] \<sigma> = (Inr n, \<sigma>b) \<longrightarrow>
            mass_erase E self \<sigma> = Some (Inl AssertionError, \<sigma>d))
       \<and> (check_state E self [IDLE, DOWNLOAD_IDLE]
              ''DFU device not in correct state for writing memory.'' \<sigma> = (Inr (), \<sigma>a)
            \<and> addr2block addr (int (length data)) = Inr block
            \<and> dnload E self block data \<sigma>a = (Inr n, \<sigma>b) \<longrightarrow>
            write_page E self addr data \<sigma> = Some (Inl AssertionError, \<sigma>d))"
  using assms
  by (simp add: mass_erase_def write_page_def pio_bind_def lift_def
        assert_download_idle_fails)

theorem postcondition_violation_witness:
  "ERROR \<noteq> DOWNLOAD_IDLE
   \<and> mass_erase mock dfu0
         (start [AOut (Inr 1), status_reply 3 DOWNLOAD_BUSY, status_reply 0 ERROR,
                 status_reply 0 ERROR])
       = Some (Inl AssertionError,
           \<lparr>world = [],
            trace = [CtrlTransfer 0 SEND DNLOAD 0 0 (DData [0x41]), status_query dfu0,
                     Sleep (3 / 1000), status_query dfu0, status_query dfu0]\<rparr>)
   \<and> write_page mock dfu0 0x08000000 [1, 2]
         (start [status_reply 0 IDLE, status_reply 0 IDLE, AOut (Inr 2),
                 status_reply 3 DOWNLOAD_BUSY, status_reply 0 ERROR, status_reply 0 ERROR])
       = Some (Inl AssertionError,
           \<lparr>world = [],
            trace = [status_query dfu0, status_query dfu0,
                     CtrlTransfer 0 SEND DNLOAD 2 0 (DData [1, 2]), status_query dfu0,
                     Sleep (3 / 1000), status_query dfu0, status_query dfu0]\<rparr>)"
proof -
  have ne: "ERROR \<noteq> DOWNLOAD_IDLE" "ERROR \<noteq> DOWNLOAD_BUSY"
    by (simp_all add: ERROR_def DOWNLOAD_IDLE_def DOWNLOAD_BUSY_def)
  have b: "block_on_state mock dfu0 DOWNLOAD_BUSY
             \<lparr>world = [status_reply 3 DOWNLOAD_BUSY, status_reply 0 ERROR, status_reply 0 ERROR],
              trace = tr\<rparr>
           = Some (Inr (),
               \<lparr>world = [status_reply 0 ERROR],
                trace = tr @ [status_query dfu0, Sleep (3 / 1000), status_query dfu0]\<rparr>)"
    for tr
    using mock_block_on_state_script [OF ne(2), of dfu0 "[3]" 0 "[status_reply 0 ERROR]" tr]
    by simp
  have s: "state mock dfu0 \<lparr>world = [status_reply 0 ERROR], trace = tr\<rparr>
           = (Inr ERROR, \<lparr>world = [], trace = tr @ [status_query dfu0]\<rparr>)" for tr
    by (simp add: mock_state_ok)
  have d1: "dnload mock dfu0 0 [0x41]
              (start [AOut (Inr 1), status_reply 3 DOWNLOAD_BUSY, status_reply 0 ERROR,
                      status_reply 0 ERROR])
            = (Inr 1,
               \<lparr>world = [status_reply 3 DOWNLOAD_BUSY, status_reply 0 ERROR, status_reply 0 ERROR],
                trace = [CtrlTransfer 0 SEND DNLOAD 0 0 (DData [0x41])]\<rparr>)"
    by (simp add: dnload_def start_def mock_transfer_out dfu0_def)
  have c2: "check_state mock dfu0 [IDLE, DOWNLOAD_IDLE]
              ''DFU device not in correct state for writing memory.''
              (start [status_reply 0 IDLE, status_reply 0 IDLE, AOut (Inr 2),
                      status_reply 3 DOWNLOAD_BUSY, status_reply 0 ERROR, status_reply 0 ERROR])
            = (Inr (),
               \<lparr>world = [AOut (Inr 2), status_reply 3 DOWNLOAD_BUSY, status_reply 0 ERROR,
                         status_reply 0 ERROR],
                trace = [status_query dfu0, status_query dfu0]\<rparr>)"
    by (simp add: check_state_def io_bind_def io_return_def start_def mock_state_ok)
  have a2: "addr2block 0x08000000 (int (length [1, 2 :: int])) = Inr 2"
    by (simp add: addr2block_def)
  have d2: "dnload mock dfu0 2 [1, 2]
              \<lparr>world = [AOut (Inr 2), status_reply 3 DOWNLOAD_BUSY, status_reply 0 ERROR,
                        status_reply 0 ERROR],
               trace = [status_query dfu0, status_query dfu0]\<rparr>
            = (Inr 2,
               \<lparr>world = [status_reply 3 DOWNLOAD_BUSY, status_reply 0 ERROR, status_reply 0 ERROR],
                trace = [status_query dfu0, status_query dfu0,
                         CtrlTransfer 0 SEND DNLOAD 2 0 (DData [1, 2])]\<rparr>)"
    by (simp add: dnload_def mock_transfer_out dfu0_def)
  have b1: "block_on_state mock dfu0 DOWNLOAD_BUSY
             \<lparr>world = [status_reply 3 DOWNLOAD_BUSY, status_reply 0 ERROR, status_reply 0 ERROR],
              trace = [CtrlTransfer 0 SEND DNLOAD 0 0 (DData [0x41])]\<rparr>
           = Some (Inr (),
               \<lparr>world = [status_reply 0 ERROR],
                trace = [CtrlTransfer 0 SEND DNLOAD 0 0 (DData [0x41]), status_query dfu0,
                         Sleep (3 / 1000), status_query dfu0]\<rparr>)"
    using b [of "[CtrlTransfer 0 SEND DNLOAD 0 0 (DData [0x41])]"] by simp
  have s1: "state mock dfu0
             \<lparr>world = [status_reply 0 ERROR],
              trace = [CtrlTransfer 0 SEND DNLOAD 0 0 (DData [0x41]), status_query dfu0,
                       Sleep (3 / 1000), status_query dfu0]\<rparr>
           = (Inr ERROR,
               \<lparr>world = [],
                trace = [CtrlTransfer 0 SEND DNLOAD 0 0 (DData [0x41]), status_query dfu0,
                         Sleep (3 / 1000), status_query dfu0, status_query dfu0]\<rparr>)"
    by (simp add: s)
  have b2: "block_on_state mock dfu0 DOWNLOAD_BUSY
             \<lparr>world = [status_reply 3 DOWNLOAD_BUSY, status_reply 0 ERROR, status_reply 0 ERROR],
              trace = [status_query dfu0, status_query dfu0,
                       CtrlTransfer 0 SEND DNLOAD 2 0 (DData [1, 2])]\<rparr>
           = Some (Inr (),
               \<lparr>world = [status_reply 0 ERROR],
                trace = [status_query dfu0, status_query dfu0,
                         CtrlTransfer 0 SEND DNLOAD 2 0 (DData [1, 2]), status_query dfu0,
                         Sleep (3 / 1000), status_query dfu0]\<rparr>)"
    using b [of "[status_query dfu0, status_query dfu0,
                  CtrlTransfer 0 SEND DNLOAD 2 0 (DData [1, 2])]"] by simp
  have s2: "state mock dfu0
             \<lparr>world = [status_reply 0 ERROR],
              trace = [status_query dfu0, status_query dfu0,
                       CtrlTransfer 0 SEND DNLOAD 2 0 (DData [1, 2]), status_query dfu0,
                       Sleep (3 / 1000), status_query dfu0]\<rparr>
           = (Inr ERROR,
               \<lparr>world = [],
                trace = [status_query dfu0, status_query dfu0,
                         CtrlTransfer 0 SEND DNLOAD 2 0 (DData [1, 2]), status_query dfu0,
                         Sleep (3 / 1000), status_query dfu0, status_query dfu0]\<rparr>)"
    by (simp add: s)
  show ?thesis
    using postcondition_violation [OF b1 s1 ne(1),
        where \<sigma> = "start [AOut (Inr 1), status_reply 3 DOWNLOAD_BUSY, status_reply 0 ERROR,
                   status_reply 0 ERROR]" and n = 1]
      postcondition_violation [OF b2 s2 ne(1),
        where \<sigma> = "start [status_reply 0 IDLE, status_reply 0 IDLE, AOut (Inr 2),
                   status_reply 3 DOWNLOAD_BUSY, status_reply 0 ERROR, status_reply 0 ERROR]"
          and n = 2
          and \<sigma>a = "\<lparr>world = [AOut (Inr 2), status_reply 3 DOWNLOAD_BUSY,
                             status_reply 0 ERROR, status_reply 0 ERROR],
                    trace = [status_query dfu0, status_query dfu0]\<rparr>"
          and addr = "0x08000000" and data = "[1, 2]" and block = 2]
      d1 c2 a2 d2 ne
    by simp
qed

subsection \<open>Discovery: more than one device\<close>

lemma select_device_many:
  assumes "core_find E (world \<sigma>) = (Inr (FoundMany ds), w')" and "1 < length ds"
  shows "select_device E None \<sigma>
           = (Inl NonUniqueDeviceError, \<lparr>world = w', trace = trace \<sigma> @ [CoreFind]\<rparr>)"
  using assms
  by (simp add: select_device_def io_bind_def extern_def io_return_def io_raise_def)

text \<open>
  C7: when the enumeration of an attempt, made with no serial filter, finds more than
  one device, the module's \<open>find\<close> fails at once with \<open>NonUniqueDeviceError\<close>: the
  trace gains that one enumeration and nothing more, no further attempt and no sleep.
  This holds at every attempt of the loop (\<open>find_attempts\<close> with \<open>Suc n\<close> attempts
  left), and so for \<open>find\<close> called with a positive number of attempts.
\<close>

theorem find_non_unique:
  assumes "core_find E (world \<sigma>) = (Inr (FoundMany ds), w')" and "1 < length ds"
  shows "find_attempts E None (Suc n) None altsetting \<sigma>
           = (Inl NonUniqueDeviceError, \<lparr>world = w', trace = trace \<sigma> @ [CoreFind]\<rparr>)
       \<and> (0 < attempts \<longrightarrow>
            find_dfu E None attempts None altsetting \<sigma>
              = (Inl NonUniqueDeviceError, \<lparr>world = w', trace = trace \<sigma> @ [CoreFind]\<rparr>))"
proof -
  have d: "DFUDevice_find E altsetting None None \<sigma>
           = (Inl NonUniqueDeviceError, \<lparr>world = w', trace = trace \<sigma> @ [CoreFind]\<rparr>)"
    by (simp add: DFUDevice_find_def io_bind_def select_device_many [OF assms])
  then have f: "find_attempts E None (Suc m) None altsetting \<sigma>
           = (Inl NonUniqueDeviceError, \<lparr>world = w', trace = trace \<sigma> @ [CoreFind]\<rparr>)" for m
    by simp
  show ?thesis
  proof (intro conjI impI)
    show "find_attempts E None (Suc n) None altsetting \<sigma>
           = (Inl NonUniqueDeviceError, \<lparr>world = w', trace = trace \<sigma> @ [CoreFind]\<rparr>)"
      by (rule f)
  next
    assume "0 < attempts"
    then obtain m where "nat attempts = Suc m" by (cases "nat attempts") auto
    then show "find_dfu E None attempts None altsetting \<sigma>
              = (Inl NonUniqueDeviceError, \<lparr>world = w', trace = trace \<sigma> @ [CoreFind]\<rparr>)"
      by (simp only: find_dfu_def f)
  qed
qed

theorem find_non_unique_witness:
  "1 < length [1, 2 :: nat] \<and> (0::int) < 8
   \<and> find_dfu mock None 8 None 1
       (start [AFind (Inr (FoundMany [1, 2])), AFind (Inr (FoundMany [1]))])
     = (Inl NonUniqueDeviceError,
        \<lparr>world = [AFind (Inr (FoundMany [1]))], trace = [CoreFind]\<rparr>)"
proof -
  have h: "core_find mock
             (world (start [AFind (Inr (FoundMany [1, 2])), AFind (Inr (FoundMany [1]))]))
           = (Inr (FoundMany [1, 2]), [AFind (Inr (FoundMany [1]))])"
    by (simp add: mock_def mock_find_def start_def)
  have l: "1 < length [1, 2 :: nat]" by simp
  show ?thesis
    using find_non_unique [OF h l, where n = 0 and attempts = 8 and altsetting = 1]
    by (simp add: start_def)
qed

subsection \<open>Discovery: no device\<close>

lemma select_device_nothing:
  assumes "\<forall>w. \<exists>w'. core_find E w = (Inr (FoundMany []), w') \<or> core_find E w = (Inr FoundNone, w')"
  shows "\<exists>\<sigma>'. select_device E ser \<sigma> = (Inl (RuntimeError ''No ST DFU devices found.''), \<sigma>')
              \<and> trace \<sigma>' = trace \<sigma> @ [CoreFind]"
proof -
  from assms obtain w' where
    "core_find E (world \<sigma>) = (Inr (FoundMany []), w') \<or> core_find E (world \<sigma>) = (Inr FoundNone, w')"
    by blast
  then show ?thesis
    by (cases ser)
       (auto simp: select_device_def io_bind_def extern_def io_return_def io_raise_def)
qed

lemma find_attempts_nothing:
  assumes "\<forall>w. \<exists>w'. core_find E w = (Inr (FoundMany []), w') \<or> core_find E w = (Inr FoundNone, w')"
  shows "\<exists>\<sigma>'. find_attempts E ser n None altsetting \<sigma> = (Inl (Exception ''no DFU found''), \<sigma>')
              \<and> trace \<sigma>' = trace \<sigma> @ concat (replicate n [CoreFind, Sleep (1 / 4)])"
proof (induction n arbitrary: \<sigma>)
  case 0
  show ?case by simp
next
  case (Suc n)
  from select_device_nothing [OF assms, of ser \<sigma>] obtain \<sigma>1 where
    s: "select_device E ser \<sigma> = (Inl (RuntimeError ''No ST DFU devices found.''), \<sigma>1)"
    and t: "trace \<sigma>1 = trace \<sigma> @ [CoreFind]" by blast
  have d: "DFUDevice_find E altsetting ser None \<sigma>
             = (Inl (RuntimeError ''No ST DFU devices found.''), \<sigma>1)"
    by (simp add: DFUDevice_find_def io_bind_def s)
  from Suc.IH [of "snd (sleep E (1 / 4) \<sigma>1)"] obtain \<sigma>' where
    r: "find_attempts E ser n None altsetting (snd (sleep E (1 / 4) \<sigma>1))
          = (Inl (Exception ''no DFU found''), \<sigma>')"
    and t': "trace \<sigma>' = trace (snd (sleep E (1 / 4) \<sigma>1))
                @ concat (replicate n [CoreFind, Sleep (1 / 4)])" by blast
  show ?case using d r t t' by (simp add: sleep_snd)
qed

text \<open>
  C8, as amended: when every enumeration finds no device, \<open>find(serial, attempts)\<close>
  enumerates \<open>attempts\<close> times (not at all when \<open>attempts\<close> is not positive), sleeps
  the fixed 0.25 s after every failed attempt, the last one included, and then raises
  \<open>Exception("no DFU found")\<close>. The counterexample: with 3 attempts the trace holds
  3 sleeps, the third after the final enumeration.
\<close>

theorem find_not_found:
  assumes "\<forall>w. \<exists>w'. core_find E w = (Inr (FoundMany []), w') \<or> core_find E w = (Inr FoundNone, w')"
  shows "\<exists>\<sigma>'. find_dfu E ser attempts None altsetting \<sigma> = (Inl (Exception ''no DFU found''), \<sigma>')
              \<and> trace \<sigma>' = trace \<sigma> @ concat (replicate (nat attempts) [CoreFind, Sleep (1 / 4)])"
  unfolding find_dfu_def by (rule find_attempts_nothing [OF assms])

theorem find_not_found_witness:
  "(\<forall>w. \<exists>w'. core_find no_devices w = (Inr (FoundMany []), w')
             \<or> core_find no_devices w = (Inr FoundNone, w'))
   \<and> find_dfu no_devices None 3 None 1 \<lparr>world = (), trace = []\<rparr>
     = (Inl (Exception ''no DFU found''),
        \<lparr>world = (),
         trace = [CoreFind, Sleep (1 / 4), CoreFind, Sleep (1 / 4), CoreFind, Sleep (1 / 4)]\<rparr>)"
proof -
  have h: "\<forall>w. \<exists>w'. core_find no_devices w = (Inr (FoundMany []), w')
             \<or> core_find no_devices w = (Inr FoundNone, w')"
    by (simp add: no_devices_def)
  from find_not_found [OF h, where ser = None and attempts = 3 and altsetting = 1
      and \<sigma> = "\<lparr>world = (), trace = []\<rparr>"]
  obtain \<sigma>' where
    "find_dfu no_devices None 3 None 1 \<lparr>world = (), trace = []\<rparr>
       = (Inl (Exception ''no DFU found''), \<sigma>')"
    "trace \<sigma>' = [CoreFind, Sleep (1 / 4), CoreFind, Sleep (1 / 4), CoreFind, Sleep (1 / 4)]"
    by (auto simp: numeral_3_eq_3)
  moreover have "\<sigma>' = \<lparr>world = world \<sigma>', trace = trace \<sigma>'\<rparr>" by simp
  ultimately show ?thesis using h by simp
qed

theorem find_backoff_counterexample:
  "find_dfu mock None 3 None 1
     (start [AFind (Inr (FoundMany [])), AFind (Inr (FoundMany [])), AFind (Inr (FoundMany []))])
   = (Inl (Exception ''no DFU found''),
      \<lparr>world = [],
       trace = [CoreFind, Sleep (1 / 4), CoreFind, Sleep (1 / 4), CoreFind, Sleep (1 / 4)]\<rparr>)"
  by (simp add: find_dfu_def numeral_3_eq_3 DFUDevice_find_def select_device_def io_bind_def
        extern_def io_return_def io_raise_def start_def mock_def mock_find_def sleep_def)

subsection \<open>Option bytes: the block of address 0\<close>

lemma grows_refl: "grows Q \<sigma> \<sigma>"
  by (simp add: grows_def)

lemma grows_trans: "grows Q \<sigma> \<sigma>' \<Longrightarrow> grows Q \<sigma>' \<sigma>'' \<Longrightarrow> grows Q \<sigma> \<sigma>''"
  by (auto simp: grows_def)

lemma grows_extern: "extern ev f \<sigma> = (r, \<sigma>') \<Longrightarrow> Q ev \<Longrightarrow> grows Q \<sigma> \<sigma>'"
  by (auto simp: grows_def dest: extern_trace)

lemma grows_mono: "grows Q \<sigma> \<sigma>' \<Longrightarrow> (\<And>ev. Q ev \<Longrightarrow> Q' ev) \<Longrightarrow> grows Q' \<sigma> \<sigma>'"
  by (auto simp: grows_def list_all_iff)

lemma grows_sleep: "Q (Sleep t) \<Longrightarrow> grows Q \<sigma> (snd (sleep E t \<sigma>))"
  by (simp add: grows_def sleep_snd)

lemma grows_get_status:
  assumes "get_status E self \<sigma> = (r, \<sigma>')"
  shows "grows (\<lambda>ev. \<not> data_transfer ev) \<sigma> \<sigma>'"
  using get_status_trace [OF assms] no_data_transfer_status [of _ self]
  by (auto simp: grows_def)

lemma grows_state:
  "state E self \<sigma> = (r, \<sigma>') \<Longrightarrow> grows (\<lambda>ev. \<not> data_transfer ev) \<sigma> \<sigma>'"
  using state_trace [of E self \<sigma> r \<sigma>'] by (simp add: grows_def)

lemma grows_clear_status:
  "clear_status E self \<sigma> = (r, \<sigma>') \<Longrightarrow> grows (\<lambda>ev. \<not> data_transfer ev) \<sigma> \<sigma>'"
  by (auto simp: grows_def clear_query_def dest: clear_status_trace)

lemma grows_block_loop_aux:
  assumes "block_loop E self target s \<sigma> = Some y"
  shows "grows (\<lambda>ev. \<not> data_transfer ev) \<sigma> (snd y)"
  using assms
proof (induct rule: block_loop.raw_induct [rotated 1, consumes 1, case_names step])
  case (step bl E self target s \<sigma> y)
  note IH = step(1) and eq = step(2)
  show ?case
  proof (cases "st_state s = target")
    case False
    with eq show ?thesis by (auto simp: grows_refl)
  next
    case True
    let ?\<sigma>s = "snd (sleep E (of_int (st_timeout s) / 1000) \<sigma>)"
    obtain r1 \<sigma>1 where g: "get_status E self ?\<sigma>s = (r1, \<sigma>1)"
      by (cases "get_status E self ?\<sigma>s")
    have a: "grows (\<lambda>ev. \<not> data_transfer ev) \<sigma> \<sigma>1"
      using grows_trans [OF grows_sleep grows_get_status [OF g]] by simp
    show ?thesis
    proof (cases r1)
      case (Inl e)
      with True g eq a show ?thesis by auto
    next
      case (Inr s')
      with True g eq have "bl E self target s' \<sigma>1 = Some y" by simp
      from IH [OF this] a show ?thesis by (rule grows_trans [rotated])
    qed
  qed
qed

lemma grows_block_on_state:
  assumes "block_on_state E self target \<sigma> = Some (r, \<sigma>')"
  shows "grows (\<lambda>ev. \<not> data_transfer ev) \<sigma> \<sigma>'"
proof -
  obtain r1 \<sigma>1 where g: "get_status E self \<sigma> = (r1, \<sigma>1)"
    by (cases "get_status E self \<sigma>")
  note a = grows_get_status [OF g]
  show ?thesis
  proof (cases r1)
    case (Inl e)
    with g assms a show ?thesis by (simp add: block_on_state_def)
  next
    case (Inr s)
    with g assms have "block_loop E self target s \<sigma>1 = Some (r, \<sigma>')"
      by (simp add: block_on_state_def)
    from grows_block_loop_aux [OF this] a show ?thesis by (auto intro: grows_trans)
  qed
qed

lemma io_bind_grows:
  assumes "io_bind m f \<sigma> = (r, \<sigma>')"
      and "\<And>r1 \<sigma>1. m \<sigma> = (r1, \<sigma>1) \<Longrightarrow> grows Q \<sigma> \<sigma>1"
      and "\<And>x \<sigma>1. m \<sigma> = (Inr x, \<sigma>1) \<Longrightarrow> f x \<sigma>1 = (r, \<sigma>') \<Longrightarrow> grows Q \<sigma>1 \<sigma>'"
  shows "grows Q \<sigma> \<sigma>'"
proof (cases "m \<sigma>")
  case (Pair r1 \<sigma>1)
  show ?thesis
  proof (cases r1)
    case (Inl e)
    with Pair assms(1) assms(2) [OF Pair] show ?thesis by (simp add: io_bind_def)
  next
    case (Inr x)
    with Pair assms(1) have "f x \<sigma>1 = (r, \<sigma>')" by (simp add: io_bind_def)
    from assms(3) [OF Pair [unfolded Inr] this] assms(2) [OF Pair] show ?thesis
      by (rule grows_trans [rotated])
  qed
qed

lemma pio_bind_grows:
  assumes "pio_bind m f \<sigma> = Some (r, \<sigma>')"
      and "\<And>r1 \<sigma>1. m \<sigma> = Some (r1, \<sigma>1) \<Longrightarrow> grows Q \<sigma> \<sigma>1"
      and "\<And>x \<sigma>1. m \<sigma> = Some (Inr x, \<sigma>1) \<Longrightarrow> f x \<sigma>1 = Some (r, \<sigma>') \<Longrightarrow> grows Q \<sigma>1 \<sigma>'"
  shows "grows Q \<sigma> \<sigma>'"
proof (cases "m \<sigma>")
  case None
  with assms(1) show ?thesis by (simp add: pio_bind_def)
next
  case (Some y)
  obtain r1 \<sigma>1 where y: "y = (r1, \<sigma>1)" by (cases y)
  note S = Some [unfolded y]
  show ?thesis
  proof (cases r1)
    case (Inl e)
    with S assms(1) assms(2) [OF S] show ?thesis by (simp add: pio_bind_def)
  next
    case (Inr x)
    with S assms(1) have "f x \<sigma>1 = Some (r, \<sigma>')" by (simp add: pio_bind_def)
    from assms(3) [OF S [unfolded Inr] this] assms(2) [OF S] show ?thesis
      by (rule grows_trans [rotated])
  qed
qed

lemma grows_check_state:
  assumes "check_state E self valid msg \<sigma> = (r, \<sigma>')"
  shows "grows (\<lambda>ev. \<not> data_transfer ev) \<sigma> \<sigma>'"
  using assms unfolding check_state_def
  apply (elim io_bind_grows)
     apply (erule grows_state)
    apply (auto simp: io_return_def io_raise_def grows_refl split: if_splits
        elim!: io_bind_grows intro: grows_state grows_clear_status)
  done

lemma grows_assert_download_idle:
  assumes "assert_download_idle E self \<sigma> = (r, \<sigma>')"
  shows "grows (\<lambda>ev. \<not> data_transfer ev) \<sigma> \<sigma>'"
  using assms unfolding assert_download_idle_def
  by (auto simp: io_return_def io_raise_def grows_refl split: if_splits
      elim!: io_bind_grows intro: grows_state)

lemma addr2block_option: "addr2block 0 16 = Inr (- 8388606)"
  by (simp add: addr2block_def)

lemma grows_quiet: "grows (\<lambda>ev. \<not> data_transfer ev) \<sigma> \<sigma>' \<Longrightarrow> grows (\<lambda>ev. data_transfer ev \<longrightarrow> Q ev) \<sigma> \<sigma>'"
  by (erule grows_mono) simp

lemma grows_upload:
  "upload E self block sz \<sigma> = (r, \<sigma>') \<Longrightarrow>
   Q (CtrlTransfer (dev self) RECEIVE UPLOAD block (intNum self) (DLen sz)) \<Longrightarrow> grows Q \<sigma> \<sigma>'"
  unfolding upload_def transfer_in_def by (erule grows_extern)

lemma grows_dnload:
  "dnload E self block data \<sigma> = (r, \<sigma>') \<Longrightarrow>
   Q (CtrlTransfer (dev self) SEND DNLOAD block (intNum self) (DData data)) \<Longrightarrow> grows Q \<sigma> \<sigma>'"
  unfolding dnload_def transfer_out_def by (erule grows_extern) simp

lemma grows_read_mem_option:
  assumes "read_mem E self 0 16 \<sigma> = (r, \<sigma>')"
  shows "grows (\<lambda>ev. data_transfer ev \<longrightarrow>
                 ev = CtrlTransfer (dev self) RECEIVE UPLOAD (- 8388606) (intNum self) (DLen 16))
           \<sigma> \<sigma>'"
  using assms unfolding read_mem_def
  apply (elim io_bind_grows)
    apply (simp add: grows_refl)
   apply (erule grows_quiet [OF grows_check_state])
  apply (simp add: addr2block_option)
  apply (erule grows_upload)
  apply simp
  done

lemma grows_write_page_option:
  assumes "write_page E self 0 m \<sigma> = Some (r, \<sigma>')" and "length m = 16"
  shows "grows (\<lambda>ev. data_transfer ev \<longrightarrow>
                 ev = CtrlTransfer (dev self) SEND DNLOAD (- 8388606) (intNum self) (DData m))
           \<sigma> \<sigma>'"
  using assms unfolding write_page_def
  apply (elim pio_bind_grows)
          apply (simp_all add: lift_def addr2block_option)
      apply (erule grows_quiet [OF grows_check_state])
     apply (simp add: grows_refl)
    apply (erule grows_dnload, simp)
   apply (erule grows_quiet [OF grows_block_on_state])
  apply (erule grows_quiet [OF grows_assert_download_idle])
  done

lemma grows_print: "Q (Print s) \<Longrightarrow> print s \<sigma> = (r, \<sigma>') \<Longrightarrow> grows Q \<sigma> \<sigma>'"
  unfolding print_def by (erule grows_extern [rotated])

lemma grows_write_option_bytes:
  assumes "write_option_bytes E self m \<sigma> = Some (r, \<sigma>')" and "length m = 16"
  shows "grows (\<lambda>ev. data_transfer ev \<longrightarrow>
                 ev = CtrlTransfer (dev self) SEND DNLOAD (- 8388606) (intNum self) (DData m))
           \<sigma> \<sigma>'"
    (is "grows ?Q \<sigma> \<sigma>'")
  using assms(1) unfolding write_option_bytes_def
proof (elim pio_bind_grows)
  fix r1 \<sigma>1
  assume "block_on_state E self DOWNLOAD_BUSY \<sigma> = Some (r1, \<sigma>1)"
  then show "grows ?Q \<sigma> \<sigma>1" by (rule grows_quiet [OF grows_block_on_state])
next
  fix x \<sigma>1
  let ?inner = "pio_bind (write_page E self 0 m) (\<lambda>_. block_on_state E self DOWNLOAD_BUSY) \<sigma>1"
  assume c: "(case ?inner of
        None \<Rightarrow> None
      | Some (Inl (USBError e), \<sigma>') \<Rightarrow> lift (print ''Warning: OSError with write_page'') \<sigma>'
      | Some (Inl x, \<sigma>') \<Rightarrow> Some (Inl x, \<sigma>')
      | Some (Inr u, \<sigma>') \<Rightarrow> Some (Inr (), \<sigma>')) = Some (r, \<sigma>')"
  then obtain r2 \<sigma>2 where i: "?inner = Some (r2, \<sigma>2)"
    by (cases ?inner) auto
  have g: "grows ?Q \<sigma>1 \<sigma>2"
    using i
    by (elim pio_bind_grows)
       (auto intro: grows_write_page_option [OF _ assms(2)] grows_quiet [OF grows_block_on_state])
  have "grows ?Q \<sigma>2 \<sigma>'"
    using c unfolding i
    by (auto simp: lift_def grows_refl split: sum.splits exn.splits intro: grows_print [rotated])
  with g show "grows ?Q \<sigma>1 \<sigma>'" by (rule grows_trans)
qed

lemma grows_read_option_bytes:
  assumes "read_option_bytes E self \<sigma> = Some (r, \<sigma>')"
  shows "grows (\<lambda>ev. data_transfer ev \<longrightarrow>
                 ev = CtrlTransfer (dev self) SEND DNLOAD 0 (intNum self)
                        (DData (0x21 # addr2list 0x1FFF7800))
               \<or> ev = CtrlTransfer (dev self) RECEIVE UPLOAD (- 8388606) (intNum self) (DLen 16))
           \<sigma> \<sigma>'"
  using assms unfolding read_option_bytes_def set_addr_def
  apply (elim pio_bind_grows)
      apply (simp_all add: lift_def)
    apply (erule grows_dnload, simp)
   apply (erule grows_quiet [OF grows_block_on_state])
  apply (erule grows_mono [OF grows_read_mem_option], simp)
  done

lemma read_mem_last:
  assumes "read_mem E self 0 16 \<sigma> = (Inr b, \<sigma>')"
  shows "last (trace \<sigma>') = CtrlTransfer (dev self) RECEIVE UPLOAD (- 8388606) (intNum self) (DLen 16)"
  using assms
  by (auto simp: read_mem_def io_bind_def addr2block_option upload_def transfer_in_def
      split: prod.splits sum.splits dest!: extern_trace)

lemma read_option_bytes_last:
  assumes "read_option_bytes E self \<sigma> = Some (Inr b, \<sigma>')"
  shows "last (trace \<sigma>') = CtrlTransfer (dev self) RECEIVE UPLOAD (- 8388606) (intNum self) (DLen 16)"
  using assms
  by (auto simp: read_option_bytes_def pio_bind_def lift_def
      split: option.splits prod.splits sum.splits dest!: read_mem_last)

lemma grows_set: "grows Q \<sigma> \<sigma>' \<Longrightarrow> x \<in> set (trace \<sigma>) \<Longrightarrow> x \<in> set (trace \<sigma>')"
  by (auto simp: grows_def)

lemma write_page_option_issued:
  assumes "write_page E self 0 m \<sigma> = Some (Inr u, \<sigma>')" and "length m = 16"
  shows "CtrlTransfer (dev self) SEND DNLOAD (- 8388606) (intNum self) (DData m) \<in> set (trace \<sigma>')"
proof -
  from assms obtain \<sigma>a n \<sigma>b \<sigma>c where
    d: "dnload E self (- 8388606) m \<sigma>a = (Inr n, \<sigma>b)"
    and b: "block_on_state E self DOWNLOAD_BUSY \<sigma>b = Some (Inr (), \<sigma>c)"
    and a: "assert_download_idle E self \<sigma>c = (Inr u, \<sigma>')"
    by (auto simp: write_page_def pio_bind_def lift_def addr2block_option
        split: option.splits prod.splits sum.splits)
  from d have "CtrlTransfer (dev self) SEND DNLOAD (- 8388606) (intNum self) (DData m)
                 \<in> set (trace \<sigma>b)"
    by (auto simp: dnload_def dest!: transfer_out_trace)
  then show ?thesis
    using grows_set [OF grows_block_on_state [OF b]] grows_set [OF grows_assert_download_idle [OF a]]
    by blast
qed

text \<open>
  C10: \<open>read_option_bytes\<close> and \<open>write_option_bytes\<close> call \<open>read_mem\<close> and
  \<open>write_page\<close> with the address 0, which is below the flash base 0x08000000, so
  \<open>addr2block\<close> is used outside its precondition and gives, for 16 bytes, the block
  \<open>(0 - 0x08000000) // 16 + 2 = -8388606\<close>. That negative block is what reaches the
  device: every upload \<open>read_option_bytes\<close> makes is at block -8388606 (its only other
  data transfer is the download of the set-address command to block 0), and a
  successful call ends with that upload; every download \<open>write_option_bytes\<close> makes
  with 16 bytes is at block -8388606, and a successful \<open>write_page(0, m)\<close> has sent it.
\<close>

theorem option_bytes_negative_block:
  "addr2block 0 16 = Inr (- 8388606)
   \<and> (read_option_bytes E self \<sigma> = Some (r, \<sigma>') \<longrightarrow>
        grows (\<lambda>ev. data_transfer ev \<longrightarrow>
                 ev = CtrlTransfer (dev self) SEND DNLOAD 0 (intNum self)
                        (DData (0x21 # addr2list 0x1FFF7800))
               \<or> ev = CtrlTransfer (dev self) RECEIVE UPLOAD (- 8388606) (intNum self) (DLen 16))
          \<sigma> \<sigma>')
   \<and> (read_option_bytes E self \<sigma> = Some (Inr b, \<sigma>') \<longrightarrow>
        last (trace \<sigma>')
          = CtrlTransfer (dev self) RECEIVE UPLOAD (- 8388606) (intNum self) (DLen 16))
   \<and> (length m = 16 \<and> write_option_bytes E self m \<sigma> = Some (q, \<sigma>'') \<longrightarrow>
        grows (\<lambda>ev. data_transfer ev \<longrightarrow>
                 ev = CtrlTransfer (dev self) SEND DNLOAD (- 8388606) (intNum self) (DData m))
          \<sigma> \<sigma>'')
   \<and> (length m = 16 \<and> write_page E self 0 m \<sigma> = Some (Inr u, \<sigma>'') \<longrightarrow>
        CtrlTransfer (dev self) SEND DNLOAD (- 8388606) (intNum self) (DData m)
          \<in> set (trace \<sigma>''))"
  using addr2block_option grows_read_option_bytes [of E self \<sigma> r \<sigma>']
    read_option_bytes_last [of E self \<sigma> b \<sigma>']
    grows_write_option_bytes [of E self m \<sigma> q \<sigma>'']
    write_page_option_issued [of E self m \<sigma> u \<sigma>'']
  by blast

theorem option_bytes_negative_block_witness:
  "length m16 = 16
   \<and> read_option_bytes mock dfu0
         (start [AOut (Inr 5), status_reply 0 IDLE, status_reply 0 IDLE, status_reply 0 IDLE,
                 AIn (Inr m16)])
       = Some (Inr m16,
           \<lparr>world = [],
            trace = [CtrlTransfer 0 SEND DNLOAD 0 0 (DData [0x21, 0, 0x78, 0xFF, 0x1F]),
                     status_query dfu0, status_query dfu0, status_query dfu0,
                     CtrlTransfer 0 RECEIVE UPLOAD (- 8388606) 0 (DLen 16)]\<rparr>)
   \<and> write_option_bytes mock dfu0 m16
         (start [status_reply 0 IDLE, status_reply 0 IDLE, status_reply 0 IDLE, AOut (Inr 16),
                 status_reply 0 DOWNLOAD_IDLE, status_reply 0 DOWNLOAD_IDLE,
                 status_reply 0 DOWNLOAD_IDLE])
       = Some (Inr (),
           \<lparr>world = [],
            trace = [status_query dfu0, status_query dfu0, status_query dfu0,
                     CtrlTransfer 0 SEND DNLOAD (- 8388606) 0 (DData m16),
                     status_query dfu0, status_query dfu0, status_query dfu0]\<rparr>)
   \<and> write_page mock dfu0 0 m16
         (start [status_reply 0 IDLE, status_reply 0 IDLE, AOut (Inr 16),
                 status_reply 0 DOWNLOAD_IDLE, status_reply 0 DOWNLOAD_IDLE])
       = Some (Inr (),
           \<lparr>world = [],
            trace = [status_query dfu0, status_query dfu0,
                     CtrlTransfer 0 SEND DNLOAD (- 8388606) 0 (DData m16),
                     status_query dfu0, status_query dfu0]\<rparr>)
   \<and> CtrlTransfer (dev dfu0) SEND DNLOAD (- 8388606) (intNum dfu0) (DData m16)
       \<in> set [status_query dfu0, status_query dfu0,
                CtrlTransfer 0 SEND DNLOAD (- 8388606) 0 (DData m16),
                status_query dfu0, status_query dfu0]"
proof -
  have l: "length m16 = 16" by (simp add: m16_def)
  have r: "read_option_bytes mock dfu0
         (start [AOut (Inr 5), status_reply 0 IDLE, status_reply 0 IDLE, status_reply 0 IDLE,
                 AIn (Inr m16)])
       = Some (Inr m16,
           \<lparr>world = [],
            trace = [CtrlTransfer 0 SEND DNLOAD 0 0 (DData [0x21, 0, 0x78, 0xFF, 0x1F]),
                     status_query dfu0, status_query dfu0, status_query dfu0,
                     CtrlTransfer 0 RECEIVE UPLOAD (- 8388606) 0 (DLen 16)]\<rparr>)"
    by code_simp
  have w: "write_option_bytes mock dfu0 m16
         (start [status_reply 0 IDLE, status_reply 0 IDLE, status_reply 0 IDLE, AOut (Inr 16),
                 status_reply 0 DOWNLOAD_IDLE, status_reply 0 DOWNLOAD_IDLE,
                 status_reply 0 DOWNLOAD_IDLE])
       = Some (Inr (),
           \<lparr>world = [],
            trace = [status_query dfu0, status_query dfu0, status_query dfu0,
                     CtrlTransfer 0 SEND DNLOAD (- 8388606) 0 (DData m16),
                     status_query dfu0, status_query dfu0, status_query dfu0]\<rparr>)"
    by code_simp
  have p: "write_page mock dfu0 0 m16
         (start [status_reply 0 IDLE, status_reply 0 IDLE, AOut (Inr 16),
                 status_reply 0 DOWNLOAD_IDLE, status_reply 0 DOWNLOAD_IDLE])
       = Some (Inr (),
           \<lparr>world = [],
            trace = [status_query dfu0, status_query dfu0,
                     CtrlTransfer 0 SEND DNLOAD (- 8388606) 0 (DData m16),
                     status_query dfu0, status_query dfu0]\<rparr>)"
    by code_simp
  show ?thesis
    using option_bytes_negative_block [where E = mock and self = dfu0 and m = m16
        and \<sigma> = "start [status_reply 0 IDLE, status_reply 0 IDLE, AOut (Inr 16),
                 status_reply 0 DOWNLOAD_IDLE, status_reply 0 DOWNLOAD_IDLE]"
        and u = "()"
        and \<sigma>'' = "\<lparr>world = [],
            trace = [status_query dfu0, status_query dfu0,
                     CtrlTransfer 0 SEND DNLOAD (- 8388606) 0 (DData m16),
                     status_query dfu0, status_query dfu0]\<rparr>"]
      l r w p
    by simp
qed

subsection \<open>Option bytes: the boot word\<close>

lemma and_255: "(a::int) AND 255 = a mod 256"
proof -
  have "a AND 255 = take_bit 8 a" by (simp add: take_bit_eq_mask mask_eq_exp_minus_1)
  then show ?thesis by (simp add: take_bit_eq_mod)
qed

lemma pack_L_length: "pack_L v = Inr p \<Longrightarrow> length p = 4"
  by (auto simp: pack_L_def split: if_splits)

lemma unpack_pack_L:
  assumes "pack_L v = Inr p"
  shows "unpack_L p = Inr v"
proof -
  from assms have r: "0 \<le> v" "v < 2 ^ 32"
    and p: "p = [v AND 0xFF, (drop_bit 8 v) AND 0xFF, (drop_bit 16 v) AND 0xFF,
                 (drop_bit 24 v) AND 0xFF]"
    by (auto simp: pack_L_def split: if_splits)
  define a where "a = v div 256"
  define b where "b = a div 256"
  define c where "c = b div 256"
  have d2: "v div 65536 = b"
    using zdiv_zmult2_eq [of 256 v 256] by (simp add: a_def b_def)
  have d3: "v div 16777216 = c"
    using zdiv_zmult2_eq [of 256 v 65536] d2
      zdiv_zmult2_eq [of 65536 v 256] by (simp add: c_def)
  have "0 \<le> c" "c < 256"
    using r unfolding d3 [symmetric] by (simp_all add: pos_imp_zdiv_nonneg_iff div_less_iff_less_mult)
  then have c: "c mod 256 = c" by simp
  have e1: "v = a * 256 + v mod 256" by (simp add: a_def)
  have e2: "a = b * 256 + a mod 256" by (simp add: b_def)
  have e3: "b = c * 256 + b mod 256" by (simp add: c_def)
  have "v mod 256 + (a mod 256) * 256 + (b mod 256) * 65536 + (c mod 256) * 16777216 = v"
    using e1 e2 e3 c by linarith
  then have s: "v mod 256 + (v div 256 mod 256) * 256 + (v div 65536 mod 256) * 65536
          + (v div 16777216 mod 256) * 16777216 = v"
    by (simp add: d2 d3 a_def [symmetric])
  have u: "unpack_L p = Inr (v mod 256 + (v div 256 mod 256) * 256
          + (v div 65536 mod 256) * 65536 + (v div 16777216 mod 256) * 16777216)"
    by (simp add: p unpack_L_def and_255 drop_bit_eq_div push_bit_eq_mult)
  show ?thesis by (simp only: u s)
qed

lemma boot_word_bits:
  "i \<noteq> j \<Longrightarrow>
   bit (boot_word \<lparr>nBOOT0 = 2 ^ i, nSWBOOT0 = 2 ^ j\<rparr> w) k = (k = i \<or> (k \<noteq> j \<and> bit w k))"
  by (auto simp: boot_word_def bit_simps)

lemma print_snd: "snd (print s \<sigma>) = \<lparr>world = world \<sigma>, trace = trace \<sigma> @ [Print s]\<rparr>"
  by (simp add: print_def extern_def)

lemma rewrite_option_word_eq:
  assumes "unpack_L (take 4 m) = Inr w"
  shows "rewrite_option_word E opts self m \<sigma> =
           (if boot_word opts w = w then Some (Inr (), \<sigma>)
            else case pack_L (boot_word opts w) of
                   Inl e \<Rightarrow> Some (Inl e, snd (print ''Rewriting option bytes...'' \<sigma>))
                 | Inr p \<Rightarrow> write_option_bytes E self (p @ drop 4 m)
                            (snd (print ''Rewriting option bytes...'' \<sigma>)))"
  using assms
  by (auto simp: rewrite_option_word_def pio_bind_def lift_def io_return_def print_def
        extern_def split: sum.splits)

text \<open>
  C9, as amended: \<open>prepare_options_bytes_detach\<close> first writes back, unchanged and
  whatever the option word is, the bytes its opening \<open>read_mem(0, 16)\<close> returned.
  Then, once that write and \<open>read_option_bytes\<close> have gone through, the latter
  returning \<open>m\<close> with the option word \<open>w\<close> in its first four bytes, little-endian,
  it computes \<open>boot_word w\<close>, which is \<open>w\<close> with the nBOOT0 bit set and the nSWBOOT0
  bit cleared and every other bit as it was. When that word equals \<open>w\<close> the call is
  over in the state the read left: no further write is issued. When it differs, the
  call prints its message and writes back, by \<open>write_option_bytes\<close>, the new word
  packed little-endian followed by bytes 4 onwards of \<open>m\<close> as they were read: as many
  bytes as \<open>m\<close> has, 16 for a 16-byte region.
  The counterexample: on a device whose option word already has nBOOT0 set and
  nSWBOOT0 clear, so that the computed word equals the word read, the call still
  sends one download of the 16 bytes, the opening re-write.
\<close>

theorem option_word_written_iff_changed:
  assumes "read_mem E self 0 16 \<sigma> = (Inr m0, \<sigma>a)"
      and "write_option_bytes E self m0 \<sigma>a = Some (Inr (), \<sigma>b)"
      and "read_option_bytes E self \<sigma>b = Some (Inr m, \<sigma>c)"
      and "unpack_L (take 4 m) = Inr w"
  shows "prepare_options_bytes_detach E opts self \<sigma> =
           pio_bind (write_option_bytes E self m0) (\<lambda>_.
           pio_bind (read_option_bytes E self) (rewrite_option_word E opts self)) \<sigma>a
       \<and> prepare_options_bytes_detach E opts self \<sigma> =
           (if boot_word opts w = w then Some (Inr (), \<sigma>c)
            else case pack_L (boot_word opts w) of
                   Inl e \<Rightarrow> Some (Inl e, snd (print ''Rewriting option bytes...'' \<sigma>c))
                 | Inr p \<Rightarrow> write_option_bytes E self (p @ drop 4 m)
                            (snd (print ''Rewriting option bytes...'' \<sigma>c)))
       \<and> (pack_L (boot_word opts w) = Inr p \<longrightarrow>
            length (p @ drop 4 m) = length m \<and> drop 4 (p @ drop 4 m) = drop 4 m
            \<and> unpack_L (take 4 (p @ drop 4 m)) = Inr (boot_word opts w))
       \<and> (i \<noteq> j \<longrightarrow>
            bit (boot_word \<lparr>nBOOT0 = 2 ^ i, nSWBOOT0 = 2 ^ j\<rparr> w) k
              = (k = i \<or> (k \<noteq> j \<and> bit w k)))"
proof (intro conjI impI)
  show "prepare_options_bytes_detach E opts self \<sigma> =
           pio_bind (write_option_bytes E self m0) (\<lambda>_.
           pio_bind (read_option_bytes E self) (rewrite_option_word E opts self)) \<sigma>a"
    using assms(1)
    by (simp add: prepare_options_bytes_detach_def pio_bind_def [of "lift _"] lift_def)
next
  show "prepare_options_bytes_detach E opts self \<sigma> =
           (if boot_word opts w = w then Some (Inr (), \<sigma>c)
            else case pack_L (boot_word opts w) of
                   Inl e \<Rightarrow> Some (Inl e, snd (print ''Rewriting option bytes...'' \<sigma>c))
                 | Inr p \<Rightarrow> write_option_bytes E self (p @ drop 4 m)
                            (snd (print ''Rewriting option bytes...'' \<sigma>c)))"
    using assms(1-3) rewrite_option_word_eq [OF assms(4), of E opts self \<sigma>c]
    by (simp add: prepare_options_bytes_detach_def pio_bind_def lift_def)
next
  assume p: "pack_L (boot_word opts w) = Inr p"
  from assms(4) have l: "4 \<le> length m"
    by (auto simp: unpack_L_def split: if_splits)
  note lp = pack_L_length [OF p]
  show "length (p @ drop 4 m) = length m" using l lp by simp
  show "drop 4 (p @ drop 4 m) = drop 4 m" using lp by simp
  show "unpack_L (take 4 (p @ drop 4 m)) = Inr (boot_word opts w)"
    using lp unpack_pack_L [OF p] by simp
next
  assume "i \<noteq> j"
  then show "bit (boot_word \<lparr>nBOOT0 = 2 ^ i, nSWBOOT0 = 2 ^ j\<rparr> w) k
              = (k = i \<or> (k \<noteq> j \<and> bit w k))"
    by (rule boot_word_bits)
qed

theorem option_word_written_iff_changed_witness:
  "prepare_options_bytes_detach mock bits_27_26 dfu0
       (start (answers_read_mem m16 @ answers_write @ answers_read_option m16 @ answers_write))
     = Some (Inr (),
         \<lparr>world = [], trace = events_read_mem @ events_write m16 @ events_read_option
              @ [Print ''Rewriting option bytes...''] @ events_write m16'\<rparr>)
   \<and> prepare_options_bytes_detach mock bits_27_26 dfu0
       (start (answers_read_mem m16' @ answers_write @ answers_read_option m16'))
     = Some (Inr (),
         \<lparr>world = [], trace = events_read_mem @ events_write m16' @ events_read_option\<rparr>)
   \<and> unpack_L (take 4 m16) = Inr 0xFFEFF8AA \<and> unpack_L (take 4 m16') = Inr 0xFBEFF8AA
   \<and> boot_word bits_27_26 0xFFEFF8AA = 0xFBEFF8AA
   \<and> boot_word bits_27_26 0xFBEFF8AA = 0xFBEFF8AA
   \<and> pack_L 0xFBEFF8AA = Inr (take 4 m16') \<and> take 4 m16' @ drop 4 m16 = m16'
   \<and> (27::nat) \<noteq> 26
   \<and> bit (boot_word bits_27_26 0xFFEFF8AA) 27 \<and> \<not> bit (boot_word bits_27_26 0xFFEFF8AA) 26"
proof -
  have h1: "read_mem mock dfu0 0 16
              (start (answers_read_mem m16 @ answers_write @ answers_read_option m16 @ answers_write))
            = (Inr m16, \<lparr>world = answers_write @ answers_read_option m16 @ answers_write, trace = events_read_mem\<rparr>)"
    by code_simp
  have h2: "write_option_bytes mock dfu0 m16
              \<lparr>world = answers_write @ answers_read_option m16 @ answers_write, trace = events_read_mem\<rparr>
            = Some (Inr (), \<lparr>world = answers_read_option m16 @ answers_write, trace = events_read_mem @ events_write m16\<rparr>)"
    by code_simp
  have h3: "read_option_bytes mock dfu0
              \<lparr>world = answers_read_option m16 @ answers_write, trace = events_read_mem @ events_write m16\<rparr>
            = Some (Inr m16, \<lparr>world = answers_write, trace = events_read_mem @ events_write m16 @ events_read_option\<rparr>)"
    by code_simp
  have h4: "unpack_L (take 4 m16) = Inr 0xFFEFF8AA" by code_simp
  have h5: "boot_word bits_27_26 0xFFEFF8AA = 0xFBEFF8AA" by code_simp
  have h6: "pack_L 0xFBEFF8AA = Inr (take 4 m16')" by code_simp
  have h7: "take 4 m16' @ drop 4 m16 = m16'" by code_simp
  have h8: "write_option_bytes mock dfu0 m16'
              (snd (print ''Rewriting option bytes...''
                 \<lparr>world = answers_write, trace = events_read_mem @ events_write m16 @ events_read_option\<rparr>))
            = Some (Inr (),
                \<lparr>world = [], trace = events_read_mem @ events_write m16 @ events_read_option
              @ [Print ''Rewriting option bytes...''] @ events_write m16'\<rparr>)"
    by code_simp
  have g1: "read_mem mock dfu0 0 16
              (start (answers_read_mem m16' @ answers_write @ answers_read_option m16'))
            = (Inr m16', \<lparr>world = answers_write @ answers_read_option m16', trace = events_read_mem\<rparr>)"
    by code_simp
  have g2: "write_option_bytes mock dfu0 m16'
              \<lparr>world = answers_write @ answers_read_option m16', trace = events_read_mem\<rparr>
            = Some (Inr (), \<lparr>world = answers_read_option m16', trace = events_read_mem @ events_write m16'\<rparr>)"
    by code_simp
  have g3: "read_option_bytes mock dfu0
              \<lparr>world = answers_read_option m16', trace = events_read_mem @ events_write m16'\<rparr>
            = Some (Inr m16', \<lparr>world = [], trace = events_read_mem @ events_write m16' @ events_read_option\<rparr>)"
    by code_simp
  have g4: "unpack_L (take 4 m16') = Inr 0xFBEFF8AA" by code_simp
  have g5: "boot_word bits_27_26 0xFBEFF8AA = 0xFBEFF8AA" by code_simp
  have n: "(27::nat) \<noteq> 26" by simp
  have c1: "prepare_options_bytes_detach mock bits_27_26 dfu0
       (start (answers_read_mem m16 @ answers_write @ answers_read_option m16 @ answers_write))
     = Some (Inr (),
         \<lparr>world = [], trace = events_read_mem @ events_write m16 @ events_read_option
              @ [Print ''Rewriting option bytes...''] @ events_write m16'\<rparr>)"
    using option_word_written_iff_changed [OF h1 h2 h3 h4, where opts = bits_27_26,
        THEN conjunct2, THEN conjunct1]
    by (simp add: h5 h6 h7 h8)
  have c2: "prepare_options_bytes_detach mock bits_27_26 dfu0
       (start (answers_read_mem m16' @ answers_write @ answers_read_option m16'))
     = Some (Inr (),
         \<lparr>world = [], trace = events_read_mem @ events_write m16' @ events_read_option\<rparr>)"
    using option_word_written_iff_changed [OF g1 g2 g3 g4, where opts = bits_27_26,
        THEN conjunct2, THEN conjunct1]
    by (simp add: g5)
  have c3: "bit (boot_word bits_27_26 0xFFEFF8AA) 27 \<and> \<not> bit (boot_word bits_27_26 0xFFEFF8AA) 26"
    using option_word_written_iff_changed [OF h1 h2 h3 h4, where i = 27 and j = 26 and k = 27,
        THEN conjunct2, THEN conjunct2, THEN conjunct2]
      option_word_written_iff_changed [OF h1 h2 h3 h4, where i = 27 and j = 26 and k = 26,
        THEN conjunct2, THEN conjunct2, THEN conjunct2]
    by (simp add: bits_27_26_def)
  show ?thesis using c1 c2 c3 h4 g4 h5 g5 h6 h7 n by simp
qed

theorem option_word_equal_counterexample:
  "unpack_L (take 4 m16') = Inr 0xFBEFF8AA
   \<and> boot_word bits_27_26 0xFBEFF8AA = 0xFBEFF8AA
   \<and> prepare_options_bytes_detach mock bits_27_26 dfu0
       (start (answers_read_mem m16' @ answers_write @ answers_read_option m16'))
     = Some (Inr (),
         \<lparr>world = [],
          trace = [status_query dfu0, status_query dfu0,
                   CtrlTransfer 0 RECEIVE UPLOAD (- 8388606) 0 (DLen 16),
                   status_query dfu0, status_query dfu0, status_query dfu0,
                   CtrlTransfer 0 SEND DNLOAD (- 8388606) 0 (DData m16'),
                   status_query dfu0, status_query dfu0, status_query dfu0,
                   CtrlTransfer 0 SEND DNLOAD 0 0 (DData [0x21, 0, 0x78, 0xFF, 0x1F]),
                   status_query dfu0, status_query dfu0, status_query dfu0,
                   CtrlTransfer 0 RECEIVE UPLOAD (- 8388606) 0 (DLen 16)]\<rparr>)"
proof -
  have a: "unpack_L (take 4 m16') = Inr 0xFBEFF8AA" by code_simp
  have b: "boot_word bits_27_26 0xFBEFF8AA = 0xFBEFF8AA" by code_simp
  have c: "prepare_options_bytes_detach mock bits_27_26 dfu0
       (start (answers_read_mem m16' @ answers_write @ answers_read_option m16'))
     = Some (Inr (),
         \<lparr>world = [],
          trace = [status_query dfu0, status_query dfu0,
                   CtrlTransfer 0 RECEIVE UPLOAD (- 8388606) 0 (DLen 16),
                   status_query dfu0, status_query dfu0, status_query dfu0,
                   CtrlTransfer 0 SEND DNLOAD (- 8388606) 0 (DData m16'),
                   status_query dfu0, status_query dfu0, status_query dfu0,
                   CtrlTransfer 0 SEND DNLOAD 0 0 (DData [0x21, 0, 0x78, 0xFF, 0x1F]),
                   status_query dfu0, status_query dfu0, status_query dfu0,
                   CtrlTransfer 0 RECEIVE UPLOAD (- 8388606) 0 (DLen 16)]\<rparr>)"
    by code_simp
  from a b c show ?thesis by (intro conjI)
qed

end
